theory Spec2Isabelle
  imports Complex_Main
begin

section \<open>Stabilizer primitives (src/vehicle_state/stabilizers.py)\<close>

text \<open>
  Times are Python ints (milliseconds), modelled as \<open>int\<close>. Python floats are
  modelled as \<open>real\<close>: arithmetic is exact, every integer converts to a float, and
  NaN, infinities and OverflowError are outside the model. Each \<open>update\<close> method mutates its object and returns a value; the
  model returns the pair of the value and the updated object.
\<close>

subsection \<open>HoldLatch\<close>

record HoldLatch =
  min_stable_ms :: int
  hold_on_ms :: int
  raw_last :: bool
  raw_last_change_ms :: int
  stable :: bool
  stable_since_ms :: int
  hold_until_ms :: int

text \<open>The dataclass constructor with its field defaults, as the transformer calls it:
  \<open>HoldLatch(min_stable_ms=m, hold_on_ms=h)\<close>.\<close>

definition HoldLatch_init :: "int \<Rightarrow> int \<Rightarrow> HoldLatch" where
  "HoldLatch_init m h =
     \<lparr>min_stable_ms = m, hold_on_ms = h, raw_last = False, raw_last_change_ms = 0,
      stable = False, stable_since_ms = 0, hold_until_ms = 0\<rparr>"

text \<open>\<open>HoldLatch.update(raw, now_ms)\<close>: the three statements of the method, in order.\<close>

definition latch_track_raw :: "HoldLatch \<Rightarrow> bool \<Rightarrow> int \<Rightarrow> HoldLatch" where
  "latch_track_raw h raw now =
     (if raw \<noteq> raw_last h then h\<lparr>raw_last := raw, raw_last_change_ms := now\<rparr> else h)"

definition latch_accept :: "HoldLatch \<Rightarrow> bool \<Rightarrow> int \<Rightarrow> HoldLatch" where
  "latch_accept h raw now =
     (if now - raw_last_change_ms h \<ge> min_stable_ms h then
        (if stable h \<noteq> raw then
           (let h' = h\<lparr>stable := raw, stable_since_ms := now\<rparr>
            in if stable h' \<and> hold_on_ms h' > 0
               then h'\<lparr>hold_until_ms := now + hold_on_ms h'\<rparr> else h')
         else h)
      else h)"

definition HoldLatch_update :: "HoldLatch \<Rightarrow> bool \<Rightarrow> int \<Rightarrow> bool \<times> HoldLatch" where
  "HoldLatch_update h raw now =
     (let h2 = latch_accept (latch_track_raw h raw now) raw now
      in if hold_on_ms h2 > 0 \<and> \<not> stable h2 \<and> now < hold_until_ms h2
         then (True, h2) else (stable h2, h2))"

text \<open>A sequence of calls \<open>(raw, now_ms)\<close> on one latch: the values returned.\<close>

fun HoldLatch_run :: "HoldLatch \<Rightarrow> (bool \<times> int) list \<Rightarrow> bool list" where
  "HoldLatch_run h [] = []"
| "HoldLatch_run h ((raw, now) # cs) =
     fst (HoldLatch_update h raw now) # HoldLatch_run (snd (HoldLatch_update h raw now)) cs"

fun HoldLatch_feed :: "HoldLatch \<Rightarrow> (bool \<times> int) list \<Rightarrow> HoldLatch" where
  "HoldLatch_feed h [] = h"
| "HoldLatch_feed h ((raw, now) # cs) = HoldLatch_feed (snd (HoldLatch_update h raw now)) cs"

subsection \<open>FlashDetector\<close>

record FlashDetector =
  window_ms :: int
  min_toggles :: int
  fd_last :: bool
  toggle_times_ms :: "int list"

text \<open>\<open>FlashDetector(window_ms=w, min_toggles=m)\<close>; \<open>__post_init__\<close> replaces the
  \<open>None\<close> default of the toggle list by the empty list.\<close>

definition FlashDetector_init :: "int \<Rightarrow> int \<Rightarrow> FlashDetector" where
  "FlashDetector_init w m =
     \<lparr>window_ms = w, min_toggles = m, fd_last = False, toggle_times_ms = []\<rparr>"

definition flash_record :: "FlashDetector \<Rightarrow> bool \<Rightarrow> int \<Rightarrow> FlashDetector" where
  "flash_record fd v now =
     (if v \<noteq> fd_last fd
      then fd\<lparr>fd_last := v, toggle_times_ms := toggle_times_ms fd @ [now]\<rparr> else fd)"

definition FlashDetector_update :: "FlashDetector \<Rightarrow> bool \<Rightarrow> int \<Rightarrow> bool \<times> FlashDetector" where
  "FlashDetector_update fd v now =
     (let fd1 = flash_record fd v now;
          cutoff = now - window_ms fd1;
          fd2 = fd1\<lparr>toggle_times_ms := filter (\<lambda>t. t \<ge> cutoff) (toggle_times_ms fd1)\<rparr>
      in (int (length (toggle_times_ms fd2)) \<ge> min_toggles fd2, fd2))"

fun FlashDetector_run :: "FlashDetector \<Rightarrow> (bool \<times> int) list \<Rightarrow> bool list" where
  "FlashDetector_run fd [] = []"
| "FlashDetector_run fd ((v, now) # cs) =
     fst (FlashDetector_update fd v now)
       # FlashDetector_run (snd (FlashDetector_update fd v now)) cs"

fun FlashDetector_feed :: "FlashDetector \<Rightarrow> (bool \<times> int) list \<Rightarrow> FlashDetector" where
  "FlashDetector_feed fd [] = fd"
| "FlashDetector_feed fd ((v, now) # cs) =
     FlashDetector_feed (snd (FlashDetector_update fd v now)) cs"

text \<open>The toggles of a call history, in the words of the specification: the times of
  the calls whose input differs from the previously seen value (\<open>l\<close> at the start).\<close>

fun toggle_log :: "bool \<Rightarrow> (bool \<times> int) list \<Rightarrow> int list" where
  "toggle_log l [] = []"
| "toggle_log l ((v, t) # cs) = (if v \<noteq> l then t # toggle_log v cs else toggle_log l cs)"

fun last_seen :: "bool \<Rightarrow> (bool \<times> int) list \<Rightarrow> bool" where
  "last_seen l [] = l"
| "last_seen l ((v, t) # cs) = last_seen v cs"

subsection \<open>EMA and OutlierClamp\<close>

record EMA =
  alpha :: real
  ema_has :: bool
  ema_v :: real

definition EMA_init :: "real \<Rightarrow> EMA" where
  "EMA_init a = \<lparr>alpha = a, ema_has = False, ema_v = 0\<rparr>"

definition EMA_update :: "EMA \<Rightarrow> real \<Rightarrow> real \<times> EMA" where
  "EMA_update e x =
     (if \<not> ema_has e then (x, e\<lparr>ema_has := True, ema_v := x\<rparr>)
      else (let v = alpha e * x + (1 - alpha e) * ema_v e in (v, e\<lparr>ema_v := v\<rparr>)))"

record OutlierClamp =
  max_step :: real
  oc_has :: bool
  oc_last :: real

definition OutlierClamp_init :: "real \<Rightarrow> OutlierClamp" where
  "OutlierClamp_init s = \<lparr>max_step = s, oc_has = False, oc_last = 0\<rparr>"

definition OutlierClamp_update :: "OutlierClamp \<Rightarrow> real \<Rightarrow> real \<times> OutlierClamp" where
  "OutlierClamp_update c x =
     (if \<not> oc_has c then (x, c\<lparr>oc_has := True, oc_last := x\<rparr>)
      else (let delta = x - oc_last c;
                x' = (if delta > max_step c then oc_last c + max_step c
                      else if delta < - max_step c then oc_last c - max_step c
                      else x)
            in (x', c\<lparr>oc_last := x'\<rparr>)))"

section \<open>Python values\<close>

text \<open>
  A frame is what \<open>json.loads\<close> returns and a snapshot is what \<open>json.dumps\<close> is given:
  \<open>None\<close>, booleans, integers, floats, strings, lists, and dictionaries with string
  keys. A dictionary is an association list read by its first entry for a key.
\<close>

datatype pyval =
    PNone
  | PBool bool
  | PInt int
  | PFloat real
  | PStr string
  | PList "pyval list"
  | PDict "(string \<times> pyval) list"

type_synonym pydict = "(string \<times> pyval) list"

datatype py_error = TypeError | ValueError | AttributeError | KeyError

text \<open>\<open>bool(x)\<close>, the truth value of an object.\<close>

fun truthy :: "pyval \<Rightarrow> bool" where
  "truthy PNone = False"
| "truthy (PBool b) = b"
| "truthy (PInt i) = (i \<noteq> 0)"
| "truthy (PFloat r) = (r \<noteq> 0)"
| "truthy (PStr s) = (s \<noteq> [])"
| "truthy (PList xs) = (xs \<noteq> [])"
| "truthy (PDict d) = (d \<noteq> [])"

text \<open>\<open>x or y\<close>.\<close>

definition py_or :: "pyval \<Rightarrow> pyval \<Rightarrow> pyval" where
  "py_or x y = (if truthy x then x else y)"

text \<open>\<open>d.get(k, default)\<close> on a dictionary.\<close>

definition py_get :: "pydict \<Rightarrow> string \<Rightarrow> pyval \<Rightarrow> pyval" where
  "py_get d k dflt = (case map_of d k of None \<Rightarrow> dflt | Some v \<Rightarrow> v)"

text \<open>\<open>isinstance(x, int)\<close>: \<open>bool\<close> is a subclass of \<open>int\<close>, so \<open>True\<close> and \<open>False\<close>
  are instances of \<open>int\<close>.\<close>

fun isinstance_int :: "pyval \<Rightarrow> bool" where
  "isinstance_int (PInt i) = True"
| "isinstance_int (PBool b) = True"
| "isinstance_int v = False"

text \<open>\<open>int(x)\<close> of a float truncates towards zero.\<close>

definition trunc :: "real \<Rightarrow> int" where
  "trunc r = (if 0 \<le> r then \<lfloor>r\<rfloor> else \<lceil>r\<rceil>)"

text \<open>\<open>int(x)\<close> and \<open>float(x)\<close>. How Python reads a string as a number is a parameter
  of the model (\<open>str_int\<close>, \<open>str_float\<close>: \<open>None\<close> where Python raises ValueError); every
  theorem holds for every such reading.\<close>

fun py_int :: "(string \<Rightarrow> int option) \<Rightarrow> pyval \<Rightarrow> py_error + int" where
  "py_int str_int (PInt i) = Inr i"
| "py_int str_int (PBool b) = Inr (if b then 1 else 0)"
| "py_int str_int (PFloat r) = Inr (trunc r)"
| "py_int str_int (PStr s) = (case str_int s of None \<Rightarrow> Inl ValueError | Some i \<Rightarrow> Inr i)"
| "py_int str_int v = Inl TypeError"

fun py_float :: "(string \<Rightarrow> real option) \<Rightarrow> pyval \<Rightarrow> py_error + real" where
  "py_float str_float (PInt i) = Inr (of_int i)"
| "py_float str_float (PBool b) = Inr (if b then 1 else 0)"
| "py_float str_float (PFloat r) = Inr r"
| "py_float str_float (PStr s) =
     (case str_float s of None \<Rightarrow> Inl ValueError | Some r \<Rightarrow> Inr r)"
| "py_float str_float v = Inl TypeError"

text \<open>\<open>round(x, n)\<close> of a float: to the nearest multiple of \<open>10\<^sup>-\<^sup>n\<close>, a tie to the even
  one (on exact reals; a binary float is rarely an exact decimal tie).\<close>

definition round_half_even :: "real \<Rightarrow> int" where
  "round_half_even x =
     (let f = \<lfloor>x\<rfloor>; d = x - of_int f
      in if d < 1 / 2 then f else if 1 / 2 < d then f + 1 else if even f then f else f + 1)"

definition py_round :: "real \<Rightarrow> nat \<Rightarrow> real" where
  "py_round x n = of_int (round_half_even (x * 10 ^ n)) / 10 ^ n"

section \<open>The hub's builder (src/vehicle_hub.py)\<close>

record VehicleStateBuilder =
  seq :: pyval
  last_rx_ms :: "int option"
  last_frame :: pydict
  analog_state :: "string \<Rightarrow> real option"

text \<open>\<open>__init__\<close>. \<open>analog_state\<close> is a \<open>defaultdict\<close> whose entries start as
  \<open>{"smooth": None}\<close>: a function from the key to the smoothed value, \<open>None\<close> at first.\<close>

definition VehicleStateBuilder_init :: VehicleStateBuilder where
  "VehicleStateBuilder_init =
     \<lparr>seq = PInt 0, last_rx_ms = None, last_frame = [], analog_state = (\<lambda>k. None)\<rparr>"

text \<open>\<open>update_from_uno(frame)\<close>, called at time \<open>now_ms() = now\<close>.\<close>

definition update_from_uno :: "VehicleStateBuilder \<Rightarrow> int \<Rightarrow> pydict \<Rightarrow> VehicleStateBuilder" where
  "update_from_uno b now frame =
     (let b1 = b\<lparr>last_rx_ms := Some now\<rparr>;
          b2 = (if isinstance_int (py_get frame ''seq'' PNone)
                then b1\<lparr>seq := py_get frame ''seq'' PNone\<rparr> else b1)
      in b2\<lparr>last_frame := frame\<rparr>)"

text \<open>\<open>_smooth(key, raw)\<close> with its default \<open>alpha = 0.15\<close>.\<close>

definition smooth :: "VehicleStateBuilder \<Rightarrow> string \<Rightarrow> real \<Rightarrow> real \<times> VehicleStateBuilder" where
  "smooth b key raw =
     (let s = (case analog_state b key of
                 None \<Rightarrow> raw
               | Some s0 \<Rightarrow> (15 / 100) * raw + (1 - 15 / 100) * s0)
      in (s, b\<lparr>analog_state := (analog_state b)(key := Some s)\<rparr>))"

definition null_triplet :: pyval where
  "null_triplet = PDict [(''raw'', PNone), (''smooth'', PNone), (''norm'', PNone)]"

text \<open>The local function \<open>d(pin)\<close> of \<open>build\<close>.\<close>

definition build_d :: "pydict \<Rightarrow> string \<Rightarrow> pyval" where
  "build_d inputs pin = PBool (truthy (py_get inputs pin (PBool False)))"

text \<open>The local function \<open>a(name)\<close> of \<open>build\<close>; \<open>except Exception\<close> catches whatever
  \<open>int(raw)\<close> raises.\<close>

definition build_a ::
  "(string \<Rightarrow> int option) \<Rightarrow> pydict \<Rightarrow> VehicleStateBuilder \<Rightarrow> string
     \<Rightarrow> pyval \<times> VehicleStateBuilder" where
  "build_a str_int analog b name =
     (let raw = py_get analog name PNone
      in if raw = PNone then (null_triplet, b)
         else (case py_int str_int raw of
                 Inl e \<Rightarrow> (null_triplet, b)
               | Inr raw_i \<Rightarrow>
                   (let (s, b') = smooth b name (of_int raw_i)
                    in (PDict [(''raw'', PInt raw_i),
                               (''smooth'', PFloat (py_round s 2)),
                               (''norm'', PFloat (py_round (of_int raw_i / 1023) 4))], b'))))"

text \<open>The six \<open>a(...)\<close> calls of the \<open>"analog"\<close> entry, in the order of the dictionary
  display; each may update the smoothing state.\<close>

definition build_analog ::
  "(string \<Rightarrow> int option) \<Rightarrow> pydict \<Rightarrow> VehicleStateBuilder \<Rightarrow> pyval \<times> VehicleStateBuilder" where
  "build_analog str_int analog b =
     (let (a0, b0) = build_a str_int analog b ''A0'';
          (a1, b1) = build_a str_int analog b0 ''A1'';
          (a2, b2) = build_a str_int analog b1 ''A2'';
          (a3, b3) = build_a str_int analog b2 ''A3'';
          (a4, b4) = build_a str_int analog b3 ''A4'';
          (a5, b5) = build_a str_int analog b4 ''A5''
      in (PDict [(''fuel_sender_raw'', a0), (''coolant_sender_raw'', a1),
                 (''aux_analog_2'', a2), (''aux_analog_3'', a3),
                 (''aux_analog_4'', a4), (''aux_analog_5'', a5)], b5))"

text \<open>
  \<open>build()\<close> at time \<open>now_ms() = ts\<close>, with the module constant \<open>STALE_AFTER_MS\<close> as a
  parameter. The entries of the dictionary display are evaluated in order:
  \<open>int(...)\<close> of \<open>uptime_ms\<close> and \<open>heartbeat\<close> may raise; \<open>inputs.get\<close> and \<open>analog.get\<close>
  raise AttributeError when the frame's \<open>"inputs"\<close> or \<open>"analog"\<close> is a true value that
  is not a dictionary. Every raise comes before the first call of \<open>_smooth\<close>, so an
  exception leaves the builder as it was.
\<close>

definition build ::
  "int \<Rightarrow> (string \<Rightarrow> int option) \<Rightarrow> VehicleStateBuilder \<Rightarrow> int
     \<Rightarrow> py_error + (pyval \<times> VehicleStateBuilder)" where
  "build STALE_AFTER_MS str_int b ts =
     (let stale = (case last_rx_ms b of None \<Rightarrow> True | Some rx \<Rightarrow> ts - rx > STALE_AFTER_MS);
          frame = last_frame b;
          inputs = py_or (py_get frame ''inputs'' PNone) (PDict []);
          analog = py_or (py_get frame ''analog'' PNone) (PDict [])
      in case py_int str_int (py_or (py_get frame ''uptime_ms'' (PInt 0)) (PInt 0)) of
           Inl e \<Rightarrow> Inl e
         | Inr uptime \<Rightarrow>
        (case py_int str_int (py_or (py_get frame ''heartbeat'' (PInt 0)) (PInt 0)) of
           Inl e \<Rightarrow> Inl e
         | Inr heartbeat \<Rightarrow>
        (case inputs of
           PDict di \<Rightarrow>
             (case analog of
                PDict da \<Rightarrow>
                  (let (an, b') = build_analog str_int da b
                   in Inr (PDict
                        [(''type'', PStr ''vehicle_state''),
                         (''ts_ms'', PInt ts),
                         (''source'', PStr ''bbb_vehicle_hub''),
                         (''seq'', seq b),
                         (''uptime_ms'', PInt uptime),
                         (''heartbeat'', PInt heartbeat),
                         (''indicators'', PDict
                            [(''left'', build_d di ''D2''),
                             (''right'', build_d di ''D3''),
                             (''left_flashing'', build_d di ''D2''),
                             (''right_flashing'', build_d di ''D3''),
                             (''high_beam'', build_d di ''D4'')]),
                         (''warnings'', PDict
                            [(''brake'', build_d di ''D5''),
                             (''oil'', build_d di ''D6''),
                             (''charge'', build_d di ''D7''),
                             (''door'', build_d di ''D8'')]),
                         (''spares'', PDict [(''spare_1'', build_d di ''D9'')]),
                         (''analog'', an),
                         (''_health'', PDict
                            [(''stale'', PBool stale),
                             (''last_rx_ms'',
                                (case last_rx_ms b of None \<Rightarrow> PNone | Some rx \<Rightarrow> PInt rx))])],
                        b'))
              | _ \<Rightarrow> Inl AttributeError)
         | _ \<Rightarrow> Inl AttributeError)))"

subsection \<open>The schema of a snapshot\<close>

text \<open>A dictionary has a schema when it holds exactly the schema's keys, in its order,
  each with a value of the key's type.\<close>

fun typed_dict :: "(string \<times> (pyval \<Rightarrow> bool)) list \<Rightarrow> pyval \<Rightarrow> bool" where
  "typed_dict schema (PDict d) = list_all2 (\<lambda>(k, ty) (k', v). k = k' \<and> ty v) schema d"
| "typed_dict schema v = False"

fun is_bool :: "pyval \<Rightarrow> bool" where
  "is_bool (PBool b) = True"
| "is_bool v = False"

fun is_int :: "pyval \<Rightarrow> bool" where
  "is_int (PInt i) = True"
| "is_int v = False"

fun is_str :: "pyval \<Rightarrow> bool" where
  "is_str (PStr s) = True"
| "is_str v = False"

fun is_number :: "pyval \<Rightarrow> bool" where
  "is_number (PInt i) = True"
| "is_number (PFloat r) = True"
| "is_number v = False"

definition nullable :: "(pyval \<Rightarrow> bool) \<Rightarrow> pyval \<Rightarrow> bool" where
  "nullable ty v = (v = PNone \<or> ty v)"

definition analog_entry_schema :: "(string \<times> (pyval \<Rightarrow> bool)) list" where
  "analog_entry_schema =
     [(''raw'', nullable is_int), (''smooth'', nullable is_number), (''norm'', nullable is_number)]"

text \<open>The fixed key set of the outbound snapshot. \<open>seq\<close> is whatever
  \<open>update_from_uno\<close> stored, an instance of \<open>int\<close> in Python's sense;
  \<open>ts_ms\<close>, \<open>uptime_ms\<close> and \<open>heartbeat\<close> are proper integers.\<close>

definition snapshot_schema :: "(string \<times> (pyval \<Rightarrow> bool)) list" where
  "snapshot_schema =
     [(''type'', (\<lambda>v. v = PStr ''vehicle_state'')),
      (''ts_ms'', is_int),
      (''source'', is_str),
      (''seq'', isinstance_int),
      (''uptime_ms'', is_int),
      (''heartbeat'', is_int),
      (''indicators'', typed_dict
         [(''left'', is_bool), (''right'', is_bool), (''left_flashing'', is_bool),
          (''right_flashing'', is_bool), (''high_beam'', is_bool)]),
      (''warnings'', typed_dict
         [(''brake'', is_bool), (''oil'', is_bool), (''charge'', is_bool), (''door'', is_bool)]),
      (''spares'', typed_dict [(''spare_1'', is_bool)]),
      (''analog'', typed_dict
         [(''fuel_sender_raw'', typed_dict analog_entry_schema),
          (''coolant_sender_raw'', typed_dict analog_entry_schema),
          (''aux_analog_2'', typed_dict analog_entry_schema),
          (''aux_analog_3'', typed_dict analog_entry_schema),
          (''aux_analog_4'', typed_dict analog_entry_schema),
          (''aux_analog_5'', typed_dict analog_entry_schema)]),
      (''_health'', typed_dict [(''stale'', is_bool), (''last_rx_ms'', nullable is_int)])]"

definition complete_snapshot :: "pyval \<Rightarrow> bool" where
  "complete_snapshot v = typed_dict snapshot_schema v"

text \<open>Reading a snapshot: \<open>snap[k]\<close> and \<open>snap[k1][k2]\<close>, \<open>None\<close> where the key is
  missing.\<close>

fun field :: "pyval \<Rightarrow> string \<Rightarrow> pyval option" where
  "field (PDict d) k = map_of d k"
| "field v k = None"

definition field2 :: "pyval \<Rightarrow> string \<Rightarrow> string \<Rightarrow> pyval option" where
  "field2 v k1 k2 = (case field v k1 of None \<Rightarrow> None | Some w \<Rightarrow> field w k2)"

subsection \<open>The tasks of main\<close>

text \<open>
  \<open>main\<close> runs three kinds of task on one event loop; each runs without interruption
  between two \<open>await\<close>s. An event is one such stretch:
  \<^item> \<open>Inbound obj now\<close>: \<open>serial_reader_task\<close> has parsed a line into \<open>obj\<close>;
  \<^item> \<open>PumpTick now\<close>: one round of \<open>state_pump\<close>;
  \<^item> \<open>Connect n now\<close>: \<open>ws_handler\<close> starts for connection \<open>n\<close> and sends the hello;
  \<^item> \<open>Push n\<close>: one round of the send loop of connection \<open>n\<close>;
  \<^item> \<open>Drop n\<close>: a send of connection \<open>n\<close> raises, and its handler returns.
  \<open>sent h n\<close> lists the messages sent on connection \<open>n\<close>, oldest first.
\<close>

datatype event =
    Inbound pyval int
  | PumpTick int
  | Connect nat int
  | Push nat
  | Drop nat

record HubState =
  builder :: VehicleStateBuilder
  latest_state :: pyval
  pump_running :: bool
  sent :: "nat \<Rightarrow> pyval list"
  closed :: "nat set"

text \<open>The reader updates the builder on \<open>vehicle_inputs\<close> frames only. (On an object
  that is not a dictionary \<open>obj.get\<close> raises, the serial port is reopened, and the
  builder is as before.)\<close>

fun accepted_frame :: "pyval \<Rightarrow> pydict option" where
  "accepted_frame (PDict d) =
     (if py_get d ''type'' PNone = PStr ''vehicle_inputs'' then Some d else None)"
| "accepted_frame v = None"

definition serial_reader_step :: "VehicleStateBuilder \<Rightarrow> pyval \<Rightarrow> int \<Rightarrow> VehicleStateBuilder" where
  "serial_reader_step b obj now =
     (case accepted_frame obj of None \<Rightarrow> b | Some frame \<Rightarrow> update_from_uno b now frame)"

definition hello :: "int \<Rightarrow> pyval" where
  "hello now =
     PDict [(''type'', PStr ''hello''), (''service'', PStr ''vehicle_hub''),
            (''source'', PStr ''bbb_vehicle_hub''), (''ts_ms'', PInt now)]"

text \<open>\<open>main\<close> up to the start of the server: the builder, and the hub state with
  \<open>latest_state = builder.build()\<close> at time \<open>t0\<close>.\<close>

definition main_start :: "int \<Rightarrow> (string \<Rightarrow> int option) \<Rightarrow> int \<Rightarrow> py_error + HubState" where
  "main_start STALE_AFTER_MS str_int t0 =
     (case build STALE_AFTER_MS str_int VehicleStateBuilder_init t0 of
        Inl e \<Rightarrow> Inl e
      | Inr (snap, b) \<Rightarrow>
          Inr \<lparr>builder = b, latest_state = snap, pump_running = True,
               sent = (\<lambda>n. []), closed = {}\<rparr>)"

text \<open>One event. \<open>state_pump\<close> has no exception handler: when \<open>build\<close> raises, the
  task ends and \<open>latest_state\<close> keeps its last value.\<close>

fun hub_step :: "int \<Rightarrow> (string \<Rightarrow> int option) \<Rightarrow> HubState \<Rightarrow> event \<Rightarrow> HubState" where
  "hub_step STALE_AFTER_MS str_int h (Inbound obj now) =
     h\<lparr>builder := serial_reader_step (builder h) obj now\<rparr>"
| "hub_step STALE_AFTER_MS str_int h (PumpTick now) =
     (if pump_running h then
        (case build STALE_AFTER_MS str_int (builder h) now of
           Inl e \<Rightarrow> h\<lparr>pump_running := False\<rparr>
         | Inr (snap, b) \<Rightarrow> h\<lparr>builder := b, latest_state := snap\<rparr>)
      else h)"
| "hub_step STALE_AFTER_MS str_int h (Connect n now) =
     (if sent h n = [] then h\<lparr>sent := (sent h)(n := [hello now])\<rparr> else h)"
| "hub_step STALE_AFTER_MS str_int h (Push n) =
     (if sent h n \<noteq> [] \<and> n \<notin> closed h
      then h\<lparr>sent := (sent h)(n := sent h n @ [latest_state h])\<rparr> else h)"
| "hub_step STALE_AFTER_MS str_int h (Drop n) = h\<lparr>closed := insert n (closed h)\<rparr>"

definition hub_run :: "int \<Rightarrow> (string \<Rightarrow> int option) \<Rightarrow> HubState \<Rightarrow> event list \<Rightarrow> HubState" where
  "hub_run STALE_AFTER_MS str_int h evs = foldl (hub_step STALE_AFTER_MS str_int) h evs"

text \<open>No frame has been accepted: no event of the list is an inbound
  \<open>vehicle_inputs\<close> frame.\<close>

fun no_frame :: "event \<Rightarrow> bool" where
  "no_frame (Inbound obj now) = (accepted_frame obj = None)"
| "no_frame ev = True"

subsection \<open>Notions used to state the hub's properties\<close>

text \<open>\<open>snap["analog"][name][k]\<close>.\<close>

definition analog_field :: "pyval \<Rightarrow> string \<Rightarrow> string \<Rightarrow> pyval option" where
  "analog_field snap name k =
     (case field2 snap ''analog'' name of None \<Rightarrow> None | Some e \<Rightarrow> field e k)"

text \<open>A complete snapshot that reports \<open>stale = true\<close>; the hello message; and a
  connection's messages so far: nothing yet, or the hello followed by stale snapshots.\<close>

definition stale_snapshot :: "pyval \<Rightarrow> bool" where
  "stale_snapshot m = (complete_snapshot m \<and> field2 m ''_health'' ''stale'' = Some (PBool True))"

definition is_hello :: "pyval \<Rightarrow> bool" where
  "is_hello m = (case field m ''ts_ms'' of Some (PInt t) \<Rightarrow> m = hello t | _ \<Rightarrow> False)"

fun handshake_then_stale :: "pyval list \<Rightarrow> bool" where
  "handshake_then_stale [] = True"
| "handshake_then_stale (m # ms) = (is_hello m \<and> list_all stale_snapshot ms)"

text \<open>The hub while no frame has been accepted.\<close>

definition quiet :: "HubState \<Rightarrow> bool" where
  "quiet h = (last_rx_ms (builder h) = None \<and> isinstance_int (seq (builder h)) \<and>
              stale_snapshot (latest_state h) \<and> (\<forall>n. handshake_then_stale (sent h n)))"


text \<open>The frame's \<open>"analog"\<close> dictionary as \<open>build\<close> reads it, the sample of a pin in it
  (\<open>None\<close> when it is missing, null, or refused by \<open>int\<close>), and one step of the
  exponential moving average of \<open>_smooth\<close>.\<close>

definition frame_analog :: "VehicleStateBuilder \<Rightarrow> pydict" where
  "frame_analog b =
     (case py_or (py_get (last_frame b) ''analog'' PNone) (PDict []) of
        PDict da \<Rightarrow> da | _ \<Rightarrow> [])"

definition a_sample :: "(string \<Rightarrow> int option) \<Rightarrow> pydict \<Rightarrow> string \<Rightarrow> int option" where
  "a_sample str_int analog name =
     (if py_get analog name PNone = PNone then None
      else (case py_int str_int (py_get analog name PNone) of
              Inl e \<Rightarrow> None | Inr raw_i \<Rightarrow> Some raw_i))"

definition ema_step :: "real option \<Rightarrow> real \<Rightarrow> real" where
  "ema_step st raw = (case st of None \<Rightarrow> raw | Some s \<Rightarrow> (15 / 100) * raw + (1 - 15 / 100) * s)"


section \<open>The pin map and normalization (src/vehicle_state/mapping.py)\<close>

record AnalogMap =
  amap_name :: string
  amap_min :: int
  amap_max :: int
  amap_invert :: bool

text \<open>The two dictionaries of a \<open>PinMap\<close>, in the order in which \<open>items()\<close> yields
  their entries.\<close>

record PinMap =
  digital :: "(string \<times> string) list"
  analog :: "(string \<times> AnalogMap) list"

definition normalize_analog :: "real \<Rightarrow> AnalogMap \<Rightarrow> real" where
  "normalize_analog raw amap =
     (let lo = real_of_int (amap_min amap);
          hi = real_of_int (amap_max amap)
      in if hi \<le> lo then 0
         else (let x0 = raw;
                   x1 = (if x0 < lo then lo else x0);
                   x2 = (if x1 > hi then hi else x1);
                   n0 = (x2 - lo) / (hi - lo);
                   n1 = (if amap_invert amap then 1 - n0 else n0)
               in max 0 (min 1 n1)))"

section \<open>The transformer (src/vehicle_state/transformer.py)\<close>

text \<open>\<open>dict(x)\<close>. A dictionary is copied. A list is read as a sequence of key/value
  pairs: an element must be a sequence of length two (a list, a string of two
  characters, a dictionary of two keys) whose first component is hashable, and a later
  pair replaces an earlier one with the same key. The transformer looks keys up by pin
  name only, so the model keeps the pairs with a string key, the latest first. A string
  with characters is a sequence of strings of length one, and fails.\<close>

fun hashable :: "pyval \<Rightarrow> bool" where
  "hashable (PList xs) = False"
| "hashable (PDict d) = False"
| "hashable v = True"

fun pair_of :: "pyval \<Rightarrow> py_error + (pyval \<times> pyval)" where
  "pair_of (PList [k, v]) = (if hashable k then Inr (k, v) else Inl TypeError)"
| "pair_of (PList xs) = Inl ValueError"
| "pair_of (PStr [c1, c2]) = Inr (PStr [c1], PStr [c2])"
| "pair_of (PStr s) = Inl ValueError"
| "pair_of (PDict [(k1, v1), (k2, v2)]) = Inr (PStr k1, PStr k2)"
| "pair_of (PDict d) = Inl ValueError"
| "pair_of v = Inl TypeError"

fun dict_of_pairs :: "pyval list \<Rightarrow> pydict \<Rightarrow> py_error + pydict" where
  "dict_of_pairs [] acc = Inr acc"
| "dict_of_pairs (x # xs) acc =
     (case pair_of x of
        Inl e \<Rightarrow> Inl e
      | Inr (PStr k, v) \<Rightarrow> dict_of_pairs xs ((k, v) # acc)
      | Inr (k, v) \<Rightarrow> dict_of_pairs xs acc)"

fun py_dict :: "pyval \<Rightarrow> py_error + pydict" where
  "py_dict (PDict d) = Inr d"
| "py_dict (PList xs) = dict_of_pairs xs []"
| "py_dict (PStr s) = (if s = [] then Inr [] else Inl ValueError)"
| "py_dict v = Inl TypeError"

text \<open>\<open>d[k] = v\<close> on a dictionary that is reported in the snapshot: the entry keeps its
  place, a new key goes to the end.\<close>

fun dict_set :: "pydict \<Rightarrow> string \<Rightarrow> pyval \<Rightarrow> pydict" where
  "dict_set [] k v = [(k, v)]"
| "dict_set ((k', v') # d) k v = (if k' = k then (k, v) # d else (k', v') # dict_set d k v)"

record VehicleStateTransformer =
  pinmap :: PinMap
  dig_stab :: "string \<rightharpoonup> HoldLatch"
  flash :: "string \<rightharpoonup> FlashDetector"
  analog_clamp :: "string \<rightharpoonup> OutlierClamp"
  analog_ema :: "string \<rightharpoonup> EMA"
  stale_timeout_ms :: int
  last_frame_ms :: int

definition is_indicator :: "string \<Rightarrow> bool" where
  "is_indicator name = (name = ''left_indicator'' \<or> name = ''right_indicator'')"

text \<open>\<open>__post_init__\<close>: the two loops that create the stabilisers.\<close>

fun init_digital ::
  "(string \<times> string) list \<Rightarrow> (string \<rightharpoonup> HoldLatch) \<times> (string \<rightharpoonup> FlashDetector)
     \<Rightarrow> (string \<rightharpoonup> HoldLatch) \<times> (string \<rightharpoonup> FlashDetector)" where
  "init_digital [] (ds, fl) = (ds, fl)"
| "init_digital ((d_pin, name) # rest) (ds, fl) =
     (let hold = (if is_indicator name then 80 else 0);
          ds' = ds(name \<mapsto> HoldLatch_init 30 hold);
          fl' = (if is_indicator name then fl(name \<mapsto> FlashDetector_init 1200 2) else fl)
      in init_digital rest (ds', fl'))"

fun init_analog ::
  "(string \<times> AnalogMap) list \<Rightarrow> (string \<rightharpoonup> OutlierClamp) \<times> (string \<rightharpoonup> EMA)
     \<Rightarrow> (string \<rightharpoonup> OutlierClamp) \<times> (string \<rightharpoonup> EMA)" where
  "init_analog [] (ac, ae) = (ac, ae)"
| "init_analog ((a_pin, amap) # rest) (ac, ae) =
     init_analog rest (ac(amap_name amap \<mapsto> OutlierClamp_init 120),
                       ae(amap_name amap \<mapsto> EMA_init (25 / 100)))"

definition VehicleStateTransformer_init :: "PinMap \<Rightarrow> VehicleStateTransformer" where
  "VehicleStateTransformer_init pm =
     \<lparr>pinmap = pm,
      dig_stab = fst (init_digital (digital pm) (Map.empty, Map.empty)),
      flash = snd (init_digital (digital pm) (Map.empty, Map.empty)),
      analog_clamp = fst (init_analog (analog pm) (Map.empty, Map.empty)),
      analog_ema = snd (init_analog (analog pm) (Map.empty, Map.empty)),
      stale_timeout_ms = 1500,
      last_frame_ms = 0\<rparr>"

text \<open>The body of the digital loop of \<open>transform\<close> for one entry of the pin map, and
  the loop. \<open>nd\<close> and \<open>fl\<close> are the local dictionaries \<open>named_digital\<close> and
  \<open>flashing\<close>. A missing stabiliser is a KeyError, raised with the state as it is
  then.\<close>

definition digital_body ::
  "string \<times> string \<Rightarrow> pydict \<Rightarrow> int \<Rightarrow> VehicleStateTransformer
     \<Rightarrow> (string \<rightharpoonup> bool) \<times> (string \<rightharpoonup> bool)
     \<Rightarrow> (py_error + (string \<rightharpoonup> bool) \<times> (string \<rightharpoonup> bool)) \<times> VehicleStateTransformer" where
  "digital_body entry raw_inputs now t loc =
     (let d_pin = fst entry; name = snd entry; nd = fst loc; fl = snd loc;
          raw_val = truthy (py_get raw_inputs d_pin (PBool False))
      in case dig_stab t name of
           None \<Rightarrow> (Inl KeyError, t)
         | Some latch \<Rightarrow>
             (let stable_val = fst (HoldLatch_update latch raw_val now);
                  t1 = t\<lparr>dig_stab := (dig_stab t)(name \<mapsto> snd (HoldLatch_update latch raw_val now))\<rparr>;
                  nd1 = nd(name \<mapsto> stable_val)
              in case flash t1 name of
                   None \<Rightarrow> (Inr (nd1, fl), t1)
                 | Some fd \<Rightarrow>
                     (Inr (nd1, fl(name \<mapsto> fst (FlashDetector_update fd stable_val now))),
                      t1\<lparr>flash := (flash t1)(name \<mapsto> snd (FlashDetector_update fd stable_val now))\<rparr>)))"

fun digital_loop ::
  "(string \<times> string) list \<Rightarrow> pydict \<Rightarrow> int \<Rightarrow> VehicleStateTransformer
     \<Rightarrow> (string \<rightharpoonup> bool) \<times> (string \<rightharpoonup> bool)
     \<Rightarrow> (py_error + (string \<rightharpoonup> bool) \<times> (string \<rightharpoonup> bool)) \<times> VehicleStateTransformer" where
  "digital_loop [] raw_inputs now t loc = (Inr loc, t)"
| "digital_loop (entry # rest) raw_inputs now t loc =
     (case digital_body entry raw_inputs now t loc of
        (Inl e, t1) \<Rightarrow> (Inl e, t1)
      | (Inr loc1, t1) \<Rightarrow> digital_loop rest raw_inputs now t1 loc1)"

text \<open>The body of the analog loop for one entry, and the loop. \<open>continue\<close> leaves the
  state and \<open>analog_out\<close> as they are.\<close>

definition analog_body ::
  "(string \<Rightarrow> real option) \<Rightarrow> string \<times> AnalogMap \<Rightarrow> pydict \<Rightarrow> VehicleStateTransformer
     \<Rightarrow> pydict \<Rightarrow> (py_error + pydict) \<times> VehicleStateTransformer" where
  "analog_body str_float entry raw_analog t analog_out =
     (let a_pin = fst entry; amap = snd entry;
          raw = py_get raw_analog a_pin PNone
      in if raw = PNone then (Inr analog_out, t)
         else (case py_float str_float raw of
                 Inl e \<Rightarrow> (Inr analog_out, t)
               | Inr raw_f \<Rightarrow>
                  (case analog_clamp t (amap_name amap) of
                     None \<Rightarrow> (Inl KeyError, t)
                   | Some c \<Rightarrow>
                      (let clamped = fst (OutlierClamp_update c raw_f);
                           t1 = t\<lparr>analog_clamp := (analog_clamp t)
                                   (amap_name amap \<mapsto> snd (OutlierClamp_update c raw_f))\<rparr>
                       in case analog_ema t1 (amap_name amap) of
                            None \<Rightarrow> (Inl KeyError, t1)
                          | Some e \<Rightarrow>
                             (let smooth_v = fst (EMA_update e clamped);
                                  t2 = t1\<lparr>analog_ema := (analog_ema t1)
                                          (amap_name amap \<mapsto> snd (EMA_update e clamped))\<rparr>;
                                  norm = normalize_analog smooth_v amap
                              in (Inr (dict_set analog_out (amap_name amap)
                                         (PDict [(''raw'', PInt (trunc raw_f)),
                                                 (''smooth'', PFloat (py_round smooth_v 2)),
                                                 (''norm'', PFloat (py_round norm 4))])),
                                  t2))))))"

fun analog_loop ::
  "(string \<Rightarrow> real option) \<Rightarrow> (string \<times> AnalogMap) list \<Rightarrow> pydict \<Rightarrow> VehicleStateTransformer
     \<Rightarrow> pydict \<Rightarrow> (py_error + pydict) \<times> VehicleStateTransformer" where
  "analog_loop str_float [] raw_analog t analog_out = (Inr analog_out, t)"
| "analog_loop str_float (entry # rest) raw_analog t analog_out =
     (case analog_body str_float entry raw_analog t analog_out of
        (Inl e, t1) \<Rightarrow> (Inl e, t1)
      | (Inr out1, t1) \<Rightarrow> analog_loop str_float rest raw_analog t1 out1)"

text \<open>\<open>d.get(name, False)\<close> on a local dictionary of booleans.\<close>

definition get_flag :: "(string \<rightharpoonup> bool) \<Rightarrow> string \<Rightarrow> pyval" where
  "get_flag d name = PBool (case d name of None \<Rightarrow> False | Some v \<Rightarrow> v)"

text \<open>
  \<open>transform(frame)\<close> at time \<open>int(time.time() * 1000) = now\<close>. The method mutates the
  transformer as it goes, so the state is returned also when it raises: from \<open>dict\<close>
  before the loops, or from \<open>int\<close> of \<open>seq\<close>, \<open>uptime_ms\<close> or \<open>heartbeat\<close> after them.
\<close>

definition transform ::
  "(string \<Rightarrow> int option) \<Rightarrow> (string \<Rightarrow> real option) \<Rightarrow> VehicleStateTransformer \<Rightarrow> int \<Rightarrow> pydict
     \<Rightarrow> (py_error + pyval) \<times> VehicleStateTransformer" where
  "transform str_int str_float t now frame =
     (let t0 = t\<lparr>last_frame_ms := now\<rparr>
      in case py_dict (py_or (py_get frame ''inputs'' (PDict [])) (PDict [])) of
           Inl e \<Rightarrow> (Inl e, t0)
         | Inr raw_inputs \<Rightarrow>
        (case py_dict (py_or (py_get frame ''analog'' (PDict [])) (PDict [])) of
           Inl e \<Rightarrow> (Inl e, t0)
         | Inr raw_analog \<Rightarrow>
        (case digital_loop (digital (pinmap t0)) raw_inputs now t0 (Map.empty, Map.empty) of
           (Inl e, t1) \<Rightarrow> (Inl e, t1)
         | (Inr (named_digital, flashing), t1) \<Rightarrow>
        (case analog_loop str_float (analog (pinmap t1)) raw_analog t1 [] of
           (Inl e, t2) \<Rightarrow> (Inl e, t2)
         | (Inr analog_out, t2) \<Rightarrow>
        (case py_int str_int (py_get frame ''seq'' (PInt 0)) of
           Inl e \<Rightarrow> (Inl e, t2)
         | Inr seq_i \<Rightarrow>
        (case py_int str_int (py_get frame ''uptime_ms'' (PInt 0)) of
           Inl e \<Rightarrow> (Inl e, t2)
         | Inr uptime \<Rightarrow>
        (case py_int str_int (py_get frame ''heartbeat'' (PInt 0)) of
           Inl e \<Rightarrow> (Inl e, t2)
         | Inr heartbeat \<Rightarrow>
           (Inr (PDict
              [(''type'', PStr ''vehicle_state''),
               (''ts_ms'', PInt now),
               (''source'', PStr ''bbb_vehicle_hub''),
               (''seq'', PInt seq_i),
               (''uptime_ms'', PInt uptime),
               (''heartbeat'', PInt heartbeat),
               (''indicators'', PDict
                  [(''left'', get_flag named_digital ''left_indicator''),
                   (''right'', get_flag named_digital ''right_indicator''),
                   (''left_flashing'', get_flag flashing ''left_indicator''),
                   (''right_flashing'', get_flag flashing ''right_indicator''),
                   (''high_beam'', get_flag named_digital ''high_beam'')]),
               (''warnings'', PDict
                  [(''brake'', get_flag named_digital ''brake_warning''),
                   (''oil'', get_flag named_digital ''oil_pressure''),
                   (''charge'', get_flag named_digital ''charge_lamp''),
                   (''door'', get_flag named_digital ''door_ajar'')]),
               (''spares'', PDict [(''spare_1'', get_flag named_digital ''spare_1'')]),
               (''analog'', PDict analog_out),
               (''_health'', PDict [(''stale'', PBool False)])]),
            t2))))))))"

text \<open>\<open>health_state()\<close> at time \<open>now\<close>; it reads the transformer and changes nothing.\<close>

definition health_state :: "VehicleStateTransformer \<Rightarrow> int \<Rightarrow> pyval" where
  "health_state t now =
     (let stale_v = (if last_frame_ms t \<noteq> 0
                     then now - last_frame_ms t > stale_timeout_ms t else True)
      in PDict [(''type'', PStr ''vehicle_state''),
                (''ts_ms'', PInt now),
                (''source'', PStr ''bbb_vehicle_hub''),
                (''_health'', PDict [(''stale'', PBool stale_v)])])"

subsection \<open>Notions used to state the transformer's properties\<close>


text \<open>The frame's \<open>"inputs"\<close> dictionary as the hub's \<open>build\<close> reads it.\<close>

definition frame_inputs :: "VehicleStateBuilder \<Rightarrow> pydict" where
  "frame_inputs b =
     (case py_or (py_get (last_frame b) ''inputs'' PNone) (PDict []) of
        PDict di \<Rightarrow> di | _ \<Rightarrow> [])"

section \<open>Properties of the stabilizers\<close>

subsection \<open>HoldLatch: what the hold masks\<close>

lemma latch_update_masked:
  "0 < hold_on_ms h \<Longrightarrow> now < hold_until_ms h \<Longrightarrow> fst (HoldLatch_update h raw now)"
  by (auto simp: HoldLatch_update_def latch_accept_def latch_track_raw_def Let_def)

lemma latch_update_hold_on: "hold_on_ms (snd (HoldLatch_update h raw now)) = hold_on_ms h"
  by (auto simp: HoldLatch_update_def latch_accept_def latch_track_raw_def Let_def)

lemma latch_update_hold_until:
  "hold_until_ms (snd (HoldLatch_update h raw now)) = hold_until_ms h
   \<or> hold_until_ms (snd (HoldLatch_update h raw now)) = now + hold_on_ms h"
  by (auto simp: HoldLatch_update_def latch_accept_def latch_track_raw_def Let_def)

lemma latch_run_masked:
  "0 < hold_on_ms h \<Longrightarrow> T + hold_on_ms h \<le> hold_until_ms h \<Longrightarrow>
   \<forall>(r, t) \<in> set cs. T \<le> t \<and> t < T + hold_on_ms h \<Longrightarrow>
   \<forall>b \<in> set (HoldLatch_run h cs). b"
proof (induction cs arbitrary: h)
  case Nil
  then show ?case by simp
next
  case (Cons c cs)
  obtain r t where c: "c = (r, t)" by (cases c)
  let ?h = "snd (HoldLatch_update h r t)"
  from Cons.prems c have t: "T \<le> t" "t < T + hold_on_ms h" by auto
  have 1: "fst (HoldLatch_update h r t)"
    using latch_update_masked[of h t r] Cons.prems(1,2) t by simp
  have 2: "0 < hold_on_ms ?h" using Cons.prems(1) by (simp add: latch_update_hold_on)
  have 3: "T + hold_on_ms ?h \<le> hold_until_ms ?h"
    using latch_update_hold_until[of h r t] Cons.prems(2) t by (auto simp: latch_update_hold_on)
  have 4: "\<forall>(r, t) \<in> set cs. T \<le> t \<and> t < T + hold_on_ms ?h"
    using Cons.prems(3) by (simp add: latch_update_hold_on)
  from Cons.IH[OF 2 3 4] 1 show ?case by (simp add: c)
qed

text \<open>In every state a latch reaches from its constructor, a stable ON value was
  accepted at \<open>stable_since_ms\<close>, and the hold runs until \<open>hold_on_ms\<close> after that.\<close>

lemma latch_update_hold_inv:
  assumes "stable h \<longrightarrow> hold_until_ms h = stable_since_ms h + hold_on_ms h"
      and "0 < hold_on_ms h"
  shows "stable (snd (HoldLatch_update h raw now)) \<longrightarrow>
         hold_until_ms (snd (HoldLatch_update h raw now))
           = stable_since_ms (snd (HoldLatch_update h raw now)) + hold_on_ms h"
  using assms
  by (auto simp: HoldLatch_update_def latch_accept_def latch_track_raw_def Let_def)

lemma latch_feed_hold_inv:
  "stable h \<longrightarrow> hold_until_ms h = stable_since_ms h + hold_on_ms h \<Longrightarrow> 0 < hold_on_ms h \<Longrightarrow>
   hold_on_ms (HoldLatch_feed h cs) = hold_on_ms h \<and>
   (stable (HoldLatch_feed h cs) \<longrightarrow>
      hold_until_ms (HoldLatch_feed h cs) = stable_since_ms (HoldLatch_feed h cs) + hold_on_ms h)"
proof (induction h cs rule: HoldLatch_feed.induct)
  case (1 h)
  then show ?case by simp
next
  case (2 h raw now cs)
  have "0 < hold_on_ms (snd (HoldLatch_update h raw now))"
    using "2.prems"(2) by (simp add: latch_update_hold_on)
  with "2.IH" latch_update_hold_inv[OF "2.prems", of raw now]
  show ?case by (simp add: latch_update_hold_on)
qed

lemma latch_reachable_hold_until:
  "0 < H \<Longrightarrow> stable (HoldLatch_feed (HoldLatch_init m H) cs) \<Longrightarrow>
   hold_until_ms (HoldLatch_feed (HoldLatch_init m H) cs)
     = stable_since_ms (HoldLatch_feed (HoldLatch_init m H) cs) + H"
  using latch_feed_hold_inv[of "HoldLatch_init m H" cs] by (simp add: HoldLatch_init_def)

text \<open>
  Claim C6, as stated, fails. A latch with \<open>min_stable_ms = 30\<close> and \<open>hold_on_ms = 80\<close>
  accepts ON at 1030, so its hold ends at 1110. The raw input drops to OFF at 2000 and
  is back ON at 2040, an excursion of 40 ms, shorter than the hold of 80 ms. The call at
  2030 finds OFF steady for \<open>min_stable_ms\<close> and the hold long over, and returns OFF.
\<close>

theorem hold_masking_counterexample:
  "stable (HoldLatch_feed (HoldLatch_init 30 80) [(True, 1000), (True, 1030)]) \<and>
   hold_on_ms (HoldLatch_feed (HoldLatch_init 30 80) [(True, 1000), (True, 1030)]) = 80 \<and>
   (2040 :: int) - 2000 < 80 \<and>
   HoldLatch_run (HoldLatch_feed (HoldLatch_init 30 80) [(True, 1000), (True, 1030)])
       [(False, 2000), (False, 2030), (True, 2040)]
     = [True, False, False]"
  by (simp add: HoldLatch_update_def latch_accept_def latch_track_raw_def HoldLatch_init_def
        Let_def)

text \<open>
  Claim C6, amended: for a hold-latch with \<open>hold_on_ms = H > 0\<close> whose stable value is
  ON, accepted at time \<open>stable_since_ms\<close> (so that the hold runs until
  \<open>stable_since_ms + H\<close>), every call of \<open>update\<close> made before \<open>H\<close> has elapsed since
  that ON-stabilization returns ON, whatever the raw samples are: an OFF excursion is
  masked until the hold of the last ON-stabilization has run out, not for \<open>H\<close> from the
  start of the excursion.
\<close>

theorem hold_latch_masks_until_hold_elapsed:
  assumes "0 < hold_on_ms h"
      and "stable h"
      and "hold_until_ms h = stable_since_ms h + hold_on_ms h"
      and "\<forall>(raw, now) \<in> set calls.
             stable_since_ms h \<le> now \<and> now < stable_since_ms h + hold_on_ms h"
  shows "\<forall>b \<in> set (HoldLatch_run h calls). b"
  using latch_run_masked[of h "stable_since_ms h" calls] assms by simp

theorem hold_latch_masks_until_hold_elapsed_witness:
  "0 < hold_on_ms (HoldLatch_feed (HoldLatch_init 30 80) [(True, 1000), (True, 1030)]) \<and>
   stable (HoldLatch_feed (HoldLatch_init 30 80) [(True, 1000), (True, 1030)]) \<and>
   stable_since_ms (HoldLatch_feed (HoldLatch_init 30 80) [(True, 1000), (True, 1030)]) = 1030 \<and>
   hold_until_ms (HoldLatch_feed (HoldLatch_init 30 80) [(True, 1000), (True, 1030)]) = 1110 \<and>
   list_all (\<lambda>b. b)
     (HoldLatch_run (HoldLatch_feed (HoldLatch_init 30 80) [(True, 1000), (True, 1030)])
        [(False, 1040), (False, 1075), (False, 1109), (True, 1109)])"
proof -
  let ?h = "HoldLatch_feed (HoldLatch_init 30 80) [(True, 1000), (True, 1030)]"
  have h: "?h = \<lparr>min_stable_ms = 30, hold_on_ms = 80, raw_last = True,
                 raw_last_change_ms = 1000, stable = True, stable_since_ms = 1030,
                 hold_until_ms = 1110\<rparr>"
    by (simp add: HoldLatch_update_def latch_accept_def latch_track_raw_def HoldLatch_init_def
          Let_def)
  have "\<forall>b \<in> set (HoldLatch_run ?h [(False, 1040), (False, 1075), (False, 1109), (True, 1109)]). b"
    unfolding h by (rule hold_latch_masks_until_hold_elapsed) simp_all
  then show ?thesis unfolding h by (simp add: list_all_iff)
qed

subsection \<open>FlashDetector: toggles within the trailing window\<close>

lemma flash_feed_snoc:
  "FlashDetector_feed fd (cs @ [(v, t)])
     = snd (FlashDetector_update (FlashDetector_feed fd cs) v t)"
  by (induction fd cs rule: FlashDetector_feed.induct) auto

lemma toggle_log_snoc:
  "toggle_log l (cs @ [(v, t)]) = toggle_log l cs @ (if v \<noteq> last_seen l cs then [t] else [])"
  by (induction l cs rule: toggle_log.induct) auto

lemma last_seen_snoc: "last_seen l (cs @ [(v, t)]) = v"
  by (induction l cs rule: last_seen.induct) auto

text \<open>The detector's state after a history of calls at non-decreasing times: the
  retained list is the toggle log cut at the last call's cutoff.\<close>

lemma flash_feed_state:
  "sorted (map snd cs) \<Longrightarrow>
   window_ms (FlashDetector_feed (FlashDetector_init w m) cs) = w \<and>
   min_toggles (FlashDetector_feed (FlashDetector_init w m) cs) = m \<and>
   fd_last (FlashDetector_feed (FlashDetector_init w m) cs) = last_seen False cs \<and>
   toggle_times_ms (FlashDetector_feed (FlashDetector_init w m) cs) =
     (if cs = [] then [] else filter (\<lambda>t. t \<ge> snd (last cs) - w) (toggle_log False cs))"
proof (induction cs rule: rev_induct)
  case Nil
  then show ?case by (simp add: FlashDetector_init_def)
next
  case (snoc c cs)
  obtain v t where c: "c = (v, t)" by (cases c)
  from snoc.prems have s: "sorted (map snd cs)" and le: "\<forall>x \<in> set cs. snd x \<le> t"
    by (auto simp: c sorted_append)
  note IH = snoc.IH[OF s]
  have mono: "cs \<noteq> [] \<Longrightarrow> snd (last cs) \<le> t" using le by simp
  have filt: "cs \<noteq> [] \<Longrightarrow>
     filter (\<lambda>x. t - w \<le> x) (filter (\<lambda>x. snd (last cs) - w \<le> x) (toggle_log False cs))
       = filter (\<lambda>x. t - w \<le> x) (toggle_log False cs)"
    using mono by (auto intro!: filter_cong)
  show ?case
    using IH filt
    by (cases "cs = []")
       (auto simp: c flash_feed_snoc toggle_log_snoc last_seen_snoc FlashDetector_update_def
          flash_record_def Let_def FlashDetector_init_def)
qed

lemma flash_counts_window:
  assumes "sorted (map snd (calls @ [(v, now)]))"
  shows "fst (FlashDetector_update (FlashDetector_feed (FlashDetector_init w m) calls) v now)
     \<longleftrightarrow> m \<le> int (length (filter (\<lambda>t. t \<ge> now - w) (toggle_log False (calls @ [(v, now)]))))"
proof -
  have "fst (FlashDetector_update fd v now)
      = (min_toggles (snd (FlashDetector_update fd v now))
           \<le> int (length (toggle_times_ms (snd (FlashDetector_update fd v now)))))" for fd
    by (simp add: FlashDetector_update_def Let_def)
  then have "fst (FlashDetector_update (FlashDetector_feed (FlashDetector_init w m) calls) v now)
      = (min_toggles (FlashDetector_feed (FlashDetector_init w m) (calls @ [(v, now)]))
           \<le> int (length (toggle_times_ms
                 (FlashDetector_feed (FlashDetector_init w m) (calls @ [(v, now)])))))"
    by (simp add: flash_feed_snoc)
  with flash_feed_state[OF assms, of w m] show ?thesis by simp
qed

lemma flash_example_run:
  "FlashDetector_run (FlashDetector_init 1200 2)
       [(True, 0), (False, 100), (True, 220), (False, 500), (False, 1420), (False, 1421)]
     = [False, True, True, True, True, False]"
  by (simp add: FlashDetector_update_def flash_record_def FlashDetector_init_def Let_def)

text \<open>
  Claim C7: on a detector created by \<open>FlashDetector(window_ms=w, min_toggles=m)\<close> and
  called at non-decreasing times, \<open>update(v, now)\<close> returns true iff the number of
  toggles of the input recorded so far (this call included) whose timestamp is at least
  \<open>now - w\<close> is at least \<open>m\<close>. In the example of the specification (toggles at 0, 100,
  220 and 500 ms, window 1200 ms, two toggles) the detector reports flashing from the
  second toggle on, still at 1420 ms (the toggles at 220 and 500 are within the window)
  and no longer at 1421 ms.
\<close>

theorem flash_detector_counts_toggles_in_window:
  "(sorted (map snd (calls @ [(v, now)])) \<longrightarrow>
     (fst (FlashDetector_update (FlashDetector_feed (FlashDetector_init w m) calls) v now)
       \<longleftrightarrow> m \<le> int (length (filter (\<lambda>t. t \<ge> now - w)
                                 (toggle_log False (calls @ [(v, now)]))))))
   \<and> FlashDetector_run (FlashDetector_init 1200 2)
       [(True, 0), (False, 100), (True, 220), (False, 500), (False, 1420), (False, 1421)]
     = [False, True, True, True, True, False]"
  using flash_counts_window[of calls v now w m] flash_example_run by blast

theorem flash_detector_counts_toggles_in_window_witness:
  "sorted (map snd ([(True, 0), (False, 100), (True, 220)] @ [(False, 500 :: int)])) \<and>
   fst (FlashDetector_update
          (FlashDetector_feed (FlashDetector_init 1200 2) [(True, 0), (False, 100), (True, 220)])
          False 500) \<and>
   toggle_log False ([(True, 0), (False, 100), (True, 220)] @ [(False, 500)])
     = [0, 100, 220, 500]"
proof -
  have s: "sorted (map snd ([(True, 0), (False, 100), (True, 220)] @ [(False, 500 :: int)]))"
    by simp
  from flash_detector_counts_toggles_in_window
         [of "[(True, 0), (False, 100), (True, 220)]" False 500 1200 2] s
  show ?thesis by simp
qed

section \<open>Properties of the hub's builder\<close>

lemmas hub_eval =
  build_def update_from_uno_def VehicleStateBuilder_init_def py_get_def py_or_def
  build_analog_def build_a_def build_d_def Let_def smooth_def py_round_def round_half_even_def
  null_triplet_def field2_def analog_field_def serial_reader_step_def main_start_def
  hub_run_def hello_def trunc_def

subsection \<open>What \<open>build\<close> returns and what it changes\<close>

lemma build_a_frame:
  "seq (snd (build_a P da b pin)) = seq b \<and>
   last_rx_ms (snd (build_a P da b pin)) = last_rx_ms b \<and>
   last_frame (snd (build_a P da b pin)) = last_frame b"
  by (auto simp: build_a_def smooth_def Let_def split: sum.splits)

lemma build_a_state_other:
  "q \<noteq> pin \<Longrightarrow> analog_state (snd (build_a P da b pin)) q = analog_state b q"
  by (auto simp: build_a_def smooth_def Let_def split: sum.splits)


lemma build_a_fst:
  "fst (build_a P da b pin) =
     (case a_sample P da pin of
        None \<Rightarrow> null_triplet
      | Some raw_i \<Rightarrow>
          PDict [(''raw'', PInt raw_i),
                 (''smooth'', PFloat (py_round (ema_step (analog_state b pin) (of_int raw_i)) 2)),
                 (''norm'', PFloat (py_round (of_int raw_i / 1023) 4))])"
  by (auto simp: build_a_def smooth_def Let_def a_sample_def ema_step_def
      split: sum.splits option.splits)

lemma build_a_typed: "typed_dict analog_entry_schema (fst (build_a P da b pin))"
  by (auto simp: build_a_fst null_triplet_def analog_entry_schema_def nullable_def
      split: option.splits)

lemma build_analog_snd:
  "snd (build_analog P da b) =
     snd (build_a P da (snd (build_a P da (snd (build_a P da (snd (build_a P da
       (snd (build_a P da (snd (build_a P da b ''A0'')) ''A1'')) ''A2'')) ''A3'')) ''A4'')) ''A5'')"
  by (simp add: build_analog_def Let_def case_prod_beta)

lemma build_analog_fst:
  "fst (build_analog P da b) =
     PDict [(''fuel_sender_raw'', fst (build_a P da b ''A0'')),
            (''coolant_sender_raw'', fst (build_a P da b ''A1'')),
            (''aux_analog_2'', fst (build_a P da b ''A2'')),
            (''aux_analog_3'', fst (build_a P da b ''A3'')),
            (''aux_analog_4'', fst (build_a P da b ''A4'')),
            (''aux_analog_5'', fst (build_a P da b ''A5''))]"
  by (simp add: build_analog_def Let_def case_prod_beta build_a_fst build_a_state_other
        cong: option.case_cong)

lemma build_analog_frame:
  "seq (snd (build_analog P da b)) = seq b \<and>
   last_rx_ms (snd (build_analog P da b)) = last_rx_ms b \<and>
   last_frame (snd (build_analog P da b)) = last_frame b"
  by (simp add: build_analog_snd build_a_frame)


lemma build_analog_typed:
  "typed_dict
     [(''fuel_sender_raw'', typed_dict analog_entry_schema),
      (''coolant_sender_raw'', typed_dict analog_entry_schema),
      (''aux_analog_2'', typed_dict analog_entry_schema),
      (''aux_analog_3'', typed_dict analog_entry_schema),
      (''aux_analog_4'', typed_dict analog_entry_schema),
      (''aux_analog_5'', typed_dict analog_entry_schema)] (fst (build_analog P da b))"
  by (simp add: build_analog_fst build_a_typed)

text \<open>When \<open>build\<close> returns, this is the snapshot.\<close>

lemma build_Inr:
  assumes "build S P b ts = Inr (snap, b')"
  obtains uptime heartbeat di where
    "py_int P (py_or (py_get (last_frame b) ''uptime_ms'' (PInt 0)) (PInt 0)) = Inr uptime"
    "py_int P (py_or (py_get (last_frame b) ''heartbeat'' (PInt 0)) (PInt 0)) = Inr heartbeat"
    "py_or (py_get (last_frame b) ''inputs'' PNone) (PDict []) = PDict di"
    "py_or (py_get (last_frame b) ''analog'' PNone) (PDict []) = PDict (frame_analog b)"
    "b' = snd (build_analog P (frame_analog b) b)"
    "snap = PDict
       [(''type'', PStr ''vehicle_state''),
        (''ts_ms'', PInt ts),
        (''source'', PStr ''bbb_vehicle_hub''),
        (''seq'', seq b),
        (''uptime_ms'', PInt uptime),
        (''heartbeat'', PInt heartbeat),
        (''indicators'', PDict
           [(''left'', build_d di ''D2''),
            (''right'', build_d di ''D3''),
            (''left_flashing'', build_d di ''D2''),
            (''right_flashing'', build_d di ''D3''),
            (''high_beam'', build_d di ''D4'')]),
        (''warnings'', PDict
           [(''brake'', build_d di ''D5''),
            (''oil'', build_d di ''D6''),
            (''charge'', build_d di ''D7''),
            (''door'', build_d di ''D8'')]),
        (''spares'', PDict [(''spare_1'', build_d di ''D9'')]),
        (''analog'', fst (build_analog P (frame_analog b) b)),
        (''_health'', PDict
           [(''stale'', PBool (case last_rx_ms b of None \<Rightarrow> True | Some rx \<Rightarrow> ts - rx > S)),
            (''last_rx_ms'', (case last_rx_ms b of None \<Rightarrow> PNone | Some rx \<Rightarrow> PInt rx))])]"
  using assms
  by (auto simp: build_def Let_def frame_analog_def split: sum.splits pyval.splits prod.splits)

lemma build_frame:
  "build S P b ts = Inr (snap, b') \<Longrightarrow>
   seq b' = seq b \<and> last_rx_ms b' = last_rx_ms b \<and> last_frame b' = last_frame b"
  by (erule build_Inr) (simp add: build_analog_frame)



lemma build_complete:
  "build S P b ts = Inr (snap, b') \<Longrightarrow> isinstance_int (seq b) \<Longrightarrow> complete_snapshot snap"
  using build_analog_typed[of P "frame_analog b" b]
  by (erule_tac build_Inr)
     (auto simp: complete_snapshot_def snapshot_schema_def build_d_def nullable_def
        split: option.splits)


lemma build_health:
  "build S P b ts = Inr (snap, b') \<Longrightarrow>
   field2 snap ''_health'' ''stale''
     = Some (PBool (case last_rx_ms b of None \<Rightarrow> True | Some rx \<Rightarrow> ts - rx > S)) \<and>
   field2 snap ''_health'' ''last_rx_ms''
     = Some (case last_rx_ms b of None \<Rightarrow> PNone | Some rx \<Rightarrow> PInt rx)"
  by (erule build_Inr) (simp add: field2_def)

lemma build_init: "\<exists>snap b'. build S P VehicleStateBuilder_init ts = Inr (snap, b')"
  by (simp add: build_def VehicleStateBuilder_init_def py_get_def py_or_def build_analog_def
        build_a_def Let_def)

text \<open>\<open>build\<close> returns exactly when \<open>int\<close> accepts the frame's \<open>uptime_ms\<close> and
  \<open>heartbeat\<close> and its \<open>inputs\<close> and \<open>analog\<close> are dictionaries or false values; a frame
  with a non-numeric \<open>uptime_ms\<close> makes it raise.\<close>

lemma build_returns_iff:
  "(\<exists>snap b'. build S P b ts = Inr (snap, b')) \<longleftrightarrow>
   (\<exists>uptime. py_int P (py_or (py_get (last_frame b) ''uptime_ms'' (PInt 0)) (PInt 0)) = Inr uptime) \<and>
   (\<exists>heartbeat. py_int P (py_or (py_get (last_frame b) ''heartbeat'' (PInt 0)) (PInt 0))
                   = Inr heartbeat) \<and>
   (\<exists>di. py_or (py_get (last_frame b) ''inputs'' PNone) (PDict []) = PDict di) \<and>
   (\<exists>da. py_or (py_get (last_frame b) ''analog'' PNone) (PDict []) = PDict da)"
  by (auto simp: build_def Let_def split: sum.splits pyval.splits prod.splits)

lemma build_raises_example:
  "build 750 (\<lambda>s. None)
     (update_from_uno VehicleStateBuilder_init 1000
        [(''type'', PStr ''vehicle_inputs''), (''uptime_ms'', PStr ''soon'')]) 1010
   = Inl ValueError"
  by (simp add: hub_eval)

lemma update_from_uno_fields:
  "last_rx_ms (update_from_uno b now frame) = Some now"
  "last_frame (update_from_uno b now frame) = frame"
  "analog_state (update_from_uno b now frame) = analog_state b"
  "seq (update_from_uno b now frame)
     = (if isinstance_int (py_get frame ''seq'' PNone) then py_get frame ''seq'' PNone else seq b)"
  by (simp_all add: update_from_uno_def Let_def)

subsection \<open>Frames without a usable sequence number\<close>

text \<open>A boolean \<open>seq\<close> passes the test \<open>isinstance(frame.get("seq"), int)\<close> and is
  stored as it is.\<close>

lemma update_from_uno_bool_seq:
  "seq (update_from_uno b now [(''seq'', PBool v)]) = PBool v"
  by (simp add: update_from_uno_def py_get_def)



subsection \<open>Staleness\<close>

text \<open>
  Claim C5: a builder that has accepted no frame (\<open>last_rx_ms\<close> is \<open>None\<close>, as after
  \<open>__init__\<close>) reports \<open>_health.stale = true\<close> and \<open>_health.last_rx_ms = null\<close>;
  \<open>update_from_uno\<close> records the time of the frame, and a snapshot built at that same
  time reports \<open>stale = false\<close> (for a threshold that is not negative); and for a
  builder whose last frame was accepted at \<open>rx\<close>, the snapshot built at \<open>ts\<close> reports
  \<open>stale = true\<close> exactly when \<open>ts - rx\<close> exceeds \<open>STALE_AFTER_MS\<close>. Building a snapshot
  does not change \<open>last_rx_ms\<close>.
\<close>

theorem staleness_flag:
  "(\<exists>snap b'. build S P VehicleStateBuilder_init ts = Inr (snap, b') \<and>
       field2 snap ''_health'' ''stale'' = Some (PBool True) \<and>
       field2 snap ''_health'' ''last_rx_ms'' = Some PNone) \<and>
   (last_rx_ms bi = None \<and> build S P bi ts = Inr (snapi, bi') \<longrightarrow>
       field2 snapi ''_health'' ''stale'' = Some (PBool True) \<and>
       field2 snapi ''_health'' ''last_rx_ms'' = Some PNone) \<and>
   last_rx_ms (update_from_uno b now frame) = Some now \<and>
   (0 \<le> S \<and> build S P (update_from_uno b now frame) now = Inr (snapa, ba) \<longrightarrow>
       field2 snapa ''_health'' ''stale'' = Some (PBool False)) \<and>
   (last_rx_ms bl = Some rx \<and> build S P bl ts = Inr (snapl, bl') \<longrightarrow>
       field2 snapl ''_health'' ''stale'' = Some (PBool (ts - rx > S)) \<and>
       field2 snapl ''_health'' ''last_rx_ms'' = Some (PInt rx) \<and>
       last_rx_ms bl' = Some rx)"
proof -
  obtain snap b' where i: "build S P VehicleStateBuilder_init ts = Inr (snap, b')"
    using build_init by blast
  have "last_rx_ms VehicleStateBuilder_init = None" by (simp add: VehicleStateBuilder_init_def)
  with build_health[OF i] have 1: "field2 snap ''_health'' ''stale'' = Some (PBool True)"
    "field2 snap ''_health'' ''last_rx_ms'' = Some PNone" by simp_all
  have 2: "last_rx_ms bi = None \<and> build S P bi ts = Inr (snapi, bi') \<longrightarrow>
       field2 snapi ''_health'' ''stale'' = Some (PBool True) \<and>
       field2 snapi ''_health'' ''last_rx_ms'' = Some PNone"
    using build_health[of S P bi ts snapi bi'] by auto
  have 3: "0 \<le> S \<and> build S P (update_from_uno b now frame) now = Inr (snapa, ba) \<longrightarrow>
       field2 snapa ''_health'' ''stale'' = Some (PBool False)"
    using build_health[of S P "update_from_uno b now frame" now snapa ba]
    by (auto simp: update_from_uno_fields)
  have 4: "last_rx_ms bl = Some rx \<and> build S P bl ts = Inr (snapl, bl') \<longrightarrow>
       field2 snapl ''_health'' ''stale'' = Some (PBool (ts - rx > S)) \<and>
       field2 snapl ''_health'' ''last_rx_ms'' = Some (PInt rx) \<and>
       last_rx_ms bl' = Some rx"
    using build_health[of S P bl ts snapl bl'] build_frame[of S P bl ts snapl bl'] by auto
  from i 1 2 3 4 show ?thesis by (simp add: update_from_uno_fields(1))
qed

theorem staleness_flag_witness:
  "last_rx_ms VehicleStateBuilder_init = None \<and>
   (\<exists>snap b'. build 750 (\<lambda>s. None) VehicleStateBuilder_init 5 = Inr (snap, b') \<and>
      field2 snap ''_health'' ''stale'' = Some (PBool True) \<and>
      field2 snap ''_health'' ''last_rx_ms'' = Some PNone) \<and>
   (\<exists>snap b'. build 750 (\<lambda>s. None)
        (update_from_uno VehicleStateBuilder_init 1000 [(''type'', PStr ''vehicle_inputs'')])
        1000 = Inr (snap, b') \<and>
      field2 snap ''_health'' ''stale'' = Some (PBool False)) \<and>
   (\<exists>snap b'. build 750 (\<lambda>s. None)
        (update_from_uno VehicleStateBuilder_init 1000 [(''type'', PStr ''vehicle_inputs'')])
        1750 = Inr (snap, b') \<and>
      field2 snap ''_health'' ''stale'' = Some (PBool False)) \<and>
   (\<exists>snap b'. build 750 (\<lambda>s. None)
        (update_from_uno VehicleStateBuilder_init 1000 [(''type'', PStr ''vehicle_inputs'')])
        1751 = Inr (snap, b') \<and>
      field2 snap ''_health'' ''stale'' = Some (PBool True) \<and>
      field2 snap ''_health'' ''last_rx_ms'' = Some (PInt 1000))"
proof -
  let ?P = "\<lambda>s::string. None::int option"
  let ?f = "[(''type'', PStr ''vehicle_inputs'')]"
  let ?i = "VehicleStateBuilder_init"
  let ?b = "update_from_uno ?i 1000 ?f"
  have n: "last_rx_ms ?i = None"
    by (simp add: VehicleStateBuilder_init_def)
  have rx: "last_rx_ms ?b = Some 1000" by (simp add: update_from_uno_fields)
  obtain s0 c0 where r0: "build 750 ?P ?i 5 = Inr (s0, c0)"
    using build_init by blast
  obtain s1 c1 where r1: "build 750 ?P ?b 1000 = Inr (s1, c1)" by (simp add: hub_eval)
  obtain s2 c2 where r2: "build 750 ?P ?b 1750 = Inr (s2, c2)" by (simp add: hub_eval)
  obtain s3 c3 where r3: "build 750 ?P ?b 1751 = Inr (s3, c3)" by (simp add: hub_eval)
  have a0: "field2 s0 ''_health'' ''stale'' = Some (PBool True) \<and>
            field2 s0 ''_health'' ''last_rx_ms'' = Some PNone"
   and a1: "field2 s1 ''_health'' ''stale'' = Some (PBool False)"
    using staleness_flag[where S = 750 and P = ?P and ts = 5 and bi = ?i and snapi = s0
        and bi' = c0 and b = ?i and now = 1000 and frame = ?f and snapa = s1 and ba = c1
        and bl = ?b and rx = 1000 and snapl = s1 and bl' = c1] n r0 r1
    by simp_all
  have a2: "field2 s2 ''_health'' ''stale'' = Some (PBool False)"
    using staleness_flag[where S = 750 and P = ?P and ts = 1750 and bi = ?i and snapi = s0
        and bi' = c0 and b = ?i and now = 1000 and frame = ?f and snapa = s1 and ba = c1
        and bl = ?b and rx = 1000 and snapl = s2 and bl' = c2] rx r2
    by simp
  have a3: "field2 s3 ''_health'' ''stale'' = Some (PBool True) \<and>
            field2 s3 ''_health'' ''last_rx_ms'' = Some (PInt 1000)"
    using staleness_flag[where S = 750 and P = ?P and ts = 1751 and bi = ?i and snapi = s0
        and bi' = c0 and b = ?i and now = 1000 and frame = ?f and snapa = s1 and ba = c1
        and bl = ?b and rx = 1000 and snapl = s3 and bl' = c3] rx r3
    by simp
  from n r0 r1 r2 r3 a0 a1 a2 a3 show ?thesis by blast
qed

section \<open>Properties of the running hub\<close>

subsection \<open>Every published snapshot is complete\<close>




text \<open>A pump round in which \<open>build\<close> raises ends the pump and changes nothing else:
  the slot keeps the last snapshot.\<close>

lemma build_raises_leaves_slot:
  "build S P (builder h) now = Inl e \<Longrightarrow>
   hub_step S P h (PumpTick now) = (if pump_running h then h\<lparr>pump_running := False\<rparr> else h)"
  by simp

text \<open>\<open>main\<close> always gets as far as starting the server: on the fresh builder
  \<open>build\<close> returns, and the snapshot is complete and stale.\<close>

lemma main_start_Inr:
  "\<exists>h0. main_start S P t0 = Inr h0 \<and> isinstance_int (seq (builder h0)) \<and>
        last_rx_ms (builder h0) = None \<and> stale_snapshot (latest_state h0) \<and>
        pump_running h0 \<and> sent h0 = (\<lambda>n. []) \<and> closed h0 = {}"
proof -
  obtain snap b' where i: "build S P VehicleStateBuilder_init t0 = Inr (snap, b')"
    using build_init by blast
  have s: "seq VehicleStateBuilder_init = PInt 0" "last_rx_ms VehicleStateBuilder_init = None"
    by (simp_all add: VehicleStateBuilder_init_def)
  from build_frame[OF i] build_complete[OF i] build_health[OF i] s
  show ?thesis by (simp add: main_start_def i stale_snapshot_def)
qed

lemma main_start_shape:
  assumes "main_start S P t0 = Inr h0"
  obtains L where "h0 = \<lparr>builder = VehicleStateBuilder_init, latest_state = L,
                         pump_running = True, sent = (\<lambda>n. []), closed = {}\<rparr>"
  using assms
  by (auto simp: main_start_def build_def VehicleStateBuilder_init_def py_get_def py_or_def
        build_analog_def build_a_def Let_def)




subsection \<open>A subscriber that connects before the first frame\<close>

lemma is_hello_hello: "is_hello (hello t)"
  by (simp add: is_hello_def hello_def)

lemma handshake_snoc:
  "ms \<noteq> [] \<Longrightarrow> handshake_then_stale ms \<Longrightarrow> stale_snapshot m
     \<Longrightarrow> handshake_then_stale (ms @ [m])"
  by (cases ms) auto

lemma hub_step_quiet:
  assumes "quiet h" and "no_frame ev"
  shows "quiet (hub_step S P h ev)"
proof (cases ev)
  case (Inbound obj now)
  with assms show ?thesis by (simp add: quiet_def serial_reader_step_def)
next
  case (PumpTick now)
  show ?thesis
  proof (cases "build S P (builder h) now")
    case (Inl e)
    with PumpTick assms show ?thesis by (simp add: quiet_def)
  next
    case (Inr r)
    obtain snap b where r: "r = (snap, b)" by (cases r)
    from Inr r build_complete[of S P "builder h" now snap b]
      build_frame[of S P "builder h" now snap b] build_health[of S P "builder h" now snap b]
    show ?thesis using assms PumpTick by (simp add: quiet_def stale_snapshot_def)
  qed
next
  case (Connect n now)
  with assms show ?thesis by (simp add: quiet_def is_hello_hello)
next
  case (Push n)
  with assms show ?thesis by (simp add: quiet_def handshake_snoc)
next
  case (Drop n)
  with assms show ?thesis by (simp add: quiet_def)
qed

lemma hub_run_quiet: "quiet h \<Longrightarrow> list_all no_frame evs \<Longrightarrow> quiet (hub_run S P h evs)"
  unfolding hub_run_def
proof (induction evs arbitrary: h)
  case Nil
  then show ?case by simp
next
  case (Cons ev evs)
  from Cons.prems have "quiet (hub_step S P h ev)" "list_all no_frame evs"
    by (simp_all add: hub_step_quiet)
  from Cons.IH[OF this] show ?case by simp
qed

text \<open>
  Claim C9: \<open>main\<close> puts a complete snapshot with \<open>stale = true\<close> into the shared slot
  before any connection exists. As long as no \<open>vehicle_inputs\<close> frame has been accepted,
  whatever else has happened, the slot holds a complete snapshot with \<open>stale = true\<close>;
  the messages sent on every connection are the hello first and then only such
  snapshots; and the next round of an open connection's send loop sends the slot's
  snapshot and changes neither the slot nor the builder.
\<close>

theorem subscriber_before_first_frame:
  assumes "list_all no_frame evs"
  shows "\<exists>h0. main_start S P t0 = Inr h0 \<and>
           stale_snapshot (latest_state h0) \<and> (\<forall>n. sent h0 n = []) \<and>
           (\<forall>n. handshake_then_stale (sent (hub_run S P h0 evs) n)) \<and>
           stale_snapshot (latest_state (hub_run S P h0 evs)) \<and>
           (\<forall>n. sent (hub_run S P h0 evs) n \<noteq> [] \<and> n \<notin> closed (hub_run S P h0 evs) \<longrightarrow>
                sent (hub_step S P (hub_run S P h0 evs) (Push n)) n
                  = sent (hub_run S P h0 evs) n @ [latest_state (hub_run S P h0 evs)] \<and>
                latest_state (hub_step S P (hub_run S P h0 evs) (Push n))
                  = latest_state (hub_run S P h0 evs) \<and>
                builder (hub_step S P (hub_run S P h0 evs) (Push n))
                  = builder (hub_run S P h0 evs))"
proof -
  obtain h0 where h0: "main_start S P t0 = Inr h0" "isinstance_int (seq (builder h0))"
    "last_rx_ms (builder h0) = None" "stale_snapshot (latest_state h0)" "sent h0 = (\<lambda>n. [])"
    using main_start_Inr by blast
  then have "quiet h0" by (simp add: quiet_def)
  from hub_run_quiet[OF this assms, of S P] have "quiet (hub_run S P h0 evs)" .
  with h0 show ?thesis by (simp add: quiet_def)
qed

theorem subscriber_before_first_frame_witness:
  "list_all no_frame
     [PumpTick 5, Connect 1 7, Push 1, Inbound (PDict [(''type'', PStr ''debug'')]) 8,
      PumpTick 9, Push 1] \<and>
   (\<exists>h0. main_start 750 (\<lambda>s. None) 0 = Inr h0 \<and>
      length (sent (hub_run 750 (\<lambda>s. None) h0
         [PumpTick 5, Connect 1 7, Push 1, Inbound (PDict [(''type'', PStr ''debug'')]) 8,
          PumpTick 9, Push 1]) 1) = 3 \<and>
      handshake_then_stale (sent (hub_run 750 (\<lambda>s. None) h0
         [PumpTick 5, Connect 1 7, Push 1, Inbound (PDict [(''type'', PStr ''debug'')]) 8,
          PumpTick 9, Push 1]) 1))"
proof -
  let ?evs = "[PumpTick 5, Connect 1 7, Push 1, Inbound (PDict [(''type'', PStr ''debug'')]) 8,
               PumpTick 9, Push 1]"
  have q: "list_all no_frame ?evs" by (simp add: py_get_def)
  from subscriber_before_first_frame[OF q, of 750 "\<lambda>s. None" 0]
  obtain h0 where h0: "main_start 750 (\<lambda>s. None) 0 = Inr h0"
    "\<forall>n. handshake_then_stale (sent (hub_run 750 (\<lambda>s. None) h0 ?evs) n)" by blast
  from h0(1) obtain L where e: "h0 = \<lparr>builder = VehicleStateBuilder_init, latest_state = L,
                         pump_running = True, sent = (\<lambda>n. []), closed = {}\<rparr>"
    by (rule main_start_shape)
  have "length (sent (hub_run 750 (\<lambda>s. None) h0 ?evs) 1) = 3"
    unfolding e by (simp add: hub_eval)
  with q h0 show ?thesis by blast
qed

subsection \<open>Who writes the smoothing state\<close>




section \<open>Properties of the transformer\<close>

lemmas transformer_eval =
  transform_def digital_body_def analog_body_def VehicleStateTransformer_init_def
  is_indicator_def get_flag_def normalize_analog_def py_get_def py_or_def Let_def
  HoldLatch_update_def latch_accept_def latch_track_raw_def HoldLatch_init_def
  FlashDetector_update_def flash_record_def FlashDetector_init_def
  EMA_update_def EMA_init_def OutlierClamp_update_def OutlierClamp_init_def
  py_round_def round_half_even_def trunc_def field2_def analog_field_def



subsection \<open>The digital loop\<close>

lemma digital_body_other:
  assumes "digital_body (p, nm) ri now t loc = (Inr loc', t')" and "name \<noteq> nm"
  shows "fst loc' name = fst loc name \<and> snd loc' name = snd loc name \<and>
         dig_stab t' name = dig_stab t name \<and> flash t' name = flash t name"
  using assms by (auto simp: digital_body_def Let_def split: option.splits)

lemma digital_body_self:
  assumes "digital_body (p, nm) ri now t loc = (Inr loc', t')"
      and "dig_stab t nm = Some latch"
  shows "fst loc' nm
           = Some (fst (HoldLatch_update latch (truthy (py_get ri p (PBool False))) now)) \<and>
         dig_stab t' nm
           = Some (snd (HoldLatch_update latch (truthy (py_get ri p (PBool False))) now)) \<and>
         (case flash t nm of
            None \<Rightarrow> snd loc' nm = snd loc nm \<and> flash t' nm = None
          | Some fd \<Rightarrow>
              snd loc' nm = Some (fst (FlashDetector_update fd
                 (fst (HoldLatch_update latch (truthy (py_get ri p (PBool False))) now)) now)) \<and>
              flash t' nm = Some (snd (FlashDetector_update fd
                 (fst (HoldLatch_update latch (truthy (py_get ri p (PBool False))) now)) now)))"
  using assms by (auto simp: digital_body_def Let_def split: option.splits)

lemma digital_body_frame:
  assumes "digital_body e ri now t loc = (r, t')"
  shows "pinmap t' = pinmap t \<and> analog_clamp t' = analog_clamp t \<and>
         analog_ema t' = analog_ema t \<and> last_frame_ms t' = last_frame_ms t \<and>
         stale_timeout_ms t' = stale_timeout_ms t"
  using assms by (auto simp: digital_body_def Let_def split: option.splits)

lemma digital_loop_frame:
  "digital_loop chs ri now t loc = (r, t') \<Longrightarrow>
   pinmap t' = pinmap t \<and> analog_clamp t' = analog_clamp t \<and>
   analog_ema t' = analog_ema t \<and> last_frame_ms t' = last_frame_ms t \<and>
   stale_timeout_ms t' = stale_timeout_ms t"
proof (induction chs arbitrary: t loc)
  case Nil
  then show ?case by simp
next
  case (Cons e chs)
  obtain r1 t1 where b: "digital_body e ri now t loc = (r1, t1)" by (cases "digital_body e ri now t loc")
  show ?case
  proof (cases r1)
    case (Inl err)
    with Cons.prems b digital_body_frame[OF b] show ?thesis by simp
  next
    case (Inr loc1)
    with Cons.prems b have "digital_loop chs ri now t1 loc1 = (r, t')" by simp
    from Cons.IH[OF this] digital_body_frame[OF b] show ?thesis by simp
  qed
qed

lemma digital_loop_other:
  "digital_loop chs ri now t loc = (Inr loc', t') \<Longrightarrow> name \<notin> snd ` set chs \<Longrightarrow>
   fst loc' name = fst loc name \<and> snd loc' name = snd loc name \<and>
   dig_stab t' name = dig_stab t name \<and> flash t' name = flash t name"
proof (induction chs arbitrary: t loc)
  case Nil
  then show ?case by simp
next
  case (Cons e chs)
  obtain p nm where e: "e = (p, nm)" by (cases e)
  obtain r1 t1 where b: "digital_body (p, nm) ri now t loc = (r1, t1)"
    by (cases "digital_body (p, nm) ri now t loc")
  from Cons.prems(1) e b obtain loc1 where r1: "r1 = Inr loc1"
    and l: "digital_loop chs ri now t1 loc1 = (Inr loc', t')"
    by (cases r1) auto
  from Cons.prems(2) e have n: "name \<noteq> nm" "name \<notin> snd ` set chs" by auto
  from Cons.IH[OF l n(2)] digital_body_other[OF b[unfolded r1] n(1)] show ?case by simp
qed

lemma digital_loop_entry:
  assumes "digital_loop chs ri now t loc = (Inr loc', t')"
      and "distinct (map snd chs)"
      and "(p, nm) \<in> set chs"
      and "dig_stab t nm = Some latch"
  shows "fst loc' nm
           = Some (fst (HoldLatch_update latch (truthy (py_get ri p (PBool False))) now)) \<and>
         dig_stab t' nm
           = Some (snd (HoldLatch_update latch (truthy (py_get ri p (PBool False))) now)) \<and>
         (case flash t nm of
            None \<Rightarrow> snd loc' nm = snd loc nm \<and> flash t' nm = None
          | Some fd \<Rightarrow>
              snd loc' nm = Some (fst (FlashDetector_update fd
                 (fst (HoldLatch_update latch (truthy (py_get ri p (PBool False))) now)) now)) \<and>
              flash t' nm = Some (snd (FlashDetector_update fd
                 (fst (HoldLatch_update latch (truthy (py_get ri p (PBool False))) now)) now)))"
  using assms
proof (induction chs arbitrary: t loc)
  case Nil
  then show ?case by simp
next
  case (Cons e chs)
  obtain p1 nm1 where e: "e = (p1, nm1)" by (cases e)
  obtain r1 t1 where b: "digital_body (p1, nm1) ri now t loc = (r1, t1)"
    by (cases "digital_body (p1, nm1) ri now t loc")
  from Cons.prems(1) e b obtain loc1 where r1: "r1 = Inr loc1"
    and l: "digital_loop chs ri now t1 loc1 = (Inr loc', t')"
    by (cases r1) auto
  from Cons.prems(2) e have d: "nm1 \<notin> snd ` set chs" "distinct (map snd chs)" by auto
  show ?case
  proof (cases "(p, nm) = (p1, nm1)")
    case True
    then have eq: "p1 = p" "nm1 = nm" by simp_all
    from digital_loop_other[OF l d(1)] digital_body_self[OF b[unfolded r1 eq] Cons.prems(4)]
    show ?thesis by (simp add: eq split: option.splits)
  next
    case False
    with Cons.prems(3) e have m: "(p, nm) \<in> set chs" by auto
    with d(1) have ne: "nm \<noteq> nm1" by force
    from digital_body_other[OF b[unfolded r1] ne] Cons.prems(4)
    have s: "dig_stab t1 nm = Some latch" "flash t1 nm = flash t nm" "snd loc1 nm = snd loc nm"
      by simp_all
    from Cons.IH[OF l d(2) m s(1)] s show ?thesis by (simp split: option.splits)
  qed
qed

subsection \<open>The analog loop\<close>

lemma analog_body_frame:
  assumes "analog_body P e ra t out = (r, t')"
  shows "pinmap t' = pinmap t \<and> dig_stab t' = dig_stab t \<and> flash t' = flash t \<and>
         last_frame_ms t' = last_frame_ms t \<and> stale_timeout_ms t' = stale_timeout_ms t"
  using assms by (auto simp: analog_body_def Let_def split: option.splits sum.splits if_splits)




lemma analog_loop_frame:
  "analog_loop P chs ra t out = (r, t') \<Longrightarrow>
   pinmap t' = pinmap t \<and> dig_stab t' = dig_stab t \<and> flash t' = flash t \<and>
   last_frame_ms t' = last_frame_ms t \<and> stale_timeout_ms t' = stale_timeout_ms t"
proof (induction chs arbitrary: t out)
  case Nil
  then show ?case by simp
next
  case (Cons e chs)
  obtain r1 t1 where b: "analog_body P e ra t out = (r1, t1)"
    by (cases "analog_body P e ra t out")
  show ?case
  proof (cases r1)
    case (Inl err)
    with Cons.prems b analog_body_frame[OF b] show ?thesis by simp
  next
    case (Inr out1)
    with Cons.prems b have "analog_loop P chs ra t1 out1 = (r, t')" by simp
    from Cons.IH[OF this] analog_body_frame[OF b] show ?thesis by simp
  qed
qed



subsection \<open>What \<open>transform\<close> returns\<close>

lemma transform_Inr:
  assumes "transform PI PF t now frame = (Inr snap, t')"
  obtains raw_inputs raw_analog named_digital flashing t1 analog_out seq_i uptime heartbeat where
    "py_dict (py_or (py_get frame ''inputs'' (PDict [])) (PDict [])) = Inr raw_inputs"
    "py_dict (py_or (py_get frame ''analog'' (PDict [])) (PDict [])) = Inr raw_analog"
    "digital_loop (digital (pinmap t)) raw_inputs now (t\<lparr>last_frame_ms := now\<rparr>)
       (Map.empty, Map.empty) = (Inr (named_digital, flashing), t1)"
    "analog_loop PF (analog (pinmap t1)) raw_analog t1 [] = (Inr analog_out, t')"
    "snap = PDict
       [(''type'', PStr ''vehicle_state''),
        (''ts_ms'', PInt now),
        (''source'', PStr ''bbb_vehicle_hub''),
        (''seq'', PInt seq_i),
        (''uptime_ms'', PInt uptime),
        (''heartbeat'', PInt heartbeat),
        (''indicators'', PDict
           [(''left'', get_flag named_digital ''left_indicator''),
            (''right'', get_flag named_digital ''right_indicator''),
            (''left_flashing'', get_flag flashing ''left_indicator''),
            (''right_flashing'', get_flag flashing ''right_indicator''),
            (''high_beam'', get_flag named_digital ''high_beam'')]),
        (''warnings'', PDict
           [(''brake'', get_flag named_digital ''brake_warning''),
            (''oil'', get_flag named_digital ''oil_pressure''),
            (''charge'', get_flag named_digital ''charge_lamp''),
            (''door'', get_flag named_digital ''door_ajar'')]),
        (''spares'', PDict [(''spare_1'', get_flag named_digital ''spare_1'')]),
        (''analog'', PDict analog_out),
        (''_health'', PDict [(''stale'', PBool False)])]"
  using assms
  by (auto simp: transform_def Let_def split: sum.splits prod.splits)

text \<open>The transformer's own health reporting: \<open>transform\<close> reports \<open>stale = false\<close>
  and records the time of the frame, \<open>health_state\<close> reports stale when no frame was
  transformed (\<open>_last_frame_ms\<close> is 0) or the last one is older than
  \<open>stale_timeout_ms\<close>; neither has a \<open>last_rx_ms\<close> entry, so a snapshot of the
  transformer never has the full key set.\<close>

lemma health_state_stale:
  "field2 (health_state t now) ''_health'' ''stale''
     = Some (PBool (last_frame_ms t = 0 \<or> now - last_frame_ms t > stale_timeout_ms t)) \<and>
   field2 (health_state t now) ''_health'' ''last_rx_ms'' = None"
  by (simp add: health_state_def field2_def Let_def)

lemma transform_health:
  "transform PI PF t now frame = (Inr snap, t') \<Longrightarrow>
   field2 snap ''_health'' ''stale'' = Some (PBool False) \<and>
   field2 snap ''_health'' ''last_rx_ms'' = None \<and> last_frame_ms t' = now"
proof (erule transform_Inr)
  fix raw_inputs raw_analog named_digital flashing t1 analog_out seq_i uptime heartbeat
  assume dl: "digital_loop (digital (pinmap t)) raw_inputs now (t\<lparr>last_frame_ms := now\<rparr>)
       (Map.empty, Map.empty) = (Inr (named_digital, flashing), t1)"
    and al: "analog_loop PF (analog (pinmap t1)) raw_analog t1 [] = (Inr analog_out, t')"
    and s: "snap = PDict
       [(''type'', PStr ''vehicle_state''),
        (''ts_ms'', PInt now),
        (''source'', PStr ''bbb_vehicle_hub''),
        (''seq'', PInt seq_i),
        (''uptime_ms'', PInt uptime),
        (''heartbeat'', PInt heartbeat),
        (''indicators'', PDict
           [(''left'', get_flag named_digital ''left_indicator''),
            (''right'', get_flag named_digital ''right_indicator''),
            (''left_flashing'', get_flag flashing ''left_indicator''),
            (''right_flashing'', get_flag flashing ''right_indicator''),
            (''high_beam'', get_flag named_digital ''high_beam'')]),
        (''warnings'', PDict
           [(''brake'', get_flag named_digital ''brake_warning''),
            (''oil'', get_flag named_digital ''oil_pressure''),
            (''charge'', get_flag named_digital ''charge_lamp''),
            (''door'', get_flag named_digital ''door_ajar'')]),
        (''spares'', PDict [(''spare_1'', get_flag named_digital ''spare_1'')]),
        (''analog'', PDict analog_out),
        (''_health'', PDict [(''stale'', PBool False)])]"
  from digital_loop_frame[OF dl] analog_loop_frame[OF al] have "last_frame_ms t' = now" by simp
  with s show ?thesis by (simp add: field2_def)
qed

lemma transform_not_complete:
  "transform PI PF t now frame = (Inr snap, t') \<Longrightarrow> \<not> complete_snapshot snap"
  by (erule transform_Inr) (simp add: complete_snapshot_def snapshot_schema_def)

subsection \<open>The stabilisers \<open>__post_init__\<close> creates\<close>

lemma init_analog_lookup:
  "fst (init_analog chs (ac, ae)) name
     = (if name \<in> (\<lambda>e. amap_name (snd e)) ` set chs then Some (OutlierClamp_init 120)
        else ac name) \<and>
   snd (init_analog chs (ac, ae)) name
     = (if name \<in> (\<lambda>e. amap_name (snd e)) ` set chs then Some (EMA_init (25 / 100))
        else ae name)"
proof (induction chs arbitrary: ac ae)
  case Nil
  then show ?case by simp
next
  case (Cons x chs)
  obtain p am where x: "x = (p, am)" by (cases x)
  show ?case unfolding x by (simp add: Cons.IH)
qed

lemma init_digital_lookup:
  "fst (init_digital chs (ds, fl)) name
     = (if name \<in> snd ` set chs
        then Some (HoldLatch_init 30 (if is_indicator name then 80 else 0)) else ds name) \<and>
   snd (init_digital chs (ds, fl)) name
     = (if name \<in> snd ` set chs \<and> is_indicator name
        then Some (FlashDetector_init 1200 2) else fl name)"
proof (induction chs arbitrary: ds fl)
  case Nil
  then show ?case by simp
next
  case (Cons x chs)
  obtain p nm where x: "x = (p, nm)" by (cases x)
  show ?case unfolding x by (simp add: Cons.IH Let_def)
qed

lemma init_stabilisers:
  "(a_pin, amap) \<in> set (analog pm) \<Longrightarrow>
     analog_clamp (VehicleStateTransformer_init pm) (amap_name amap) = Some (OutlierClamp_init 120) \<and>
     analog_ema (VehicleStateTransformer_init pm) (amap_name amap) = Some (EMA_init (25 / 100))"
  "(d_pin, name) \<in> set (digital pm) \<Longrightarrow>
     dig_stab (VehicleStateTransformer_init pm) name
       = Some (HoldLatch_init 30 (if is_indicator name then 80 else 0)) \<and>
     (is_indicator name \<longrightarrow>
        flash (VehicleStateTransformer_init pm) name = Some (FlashDetector_init 1200 2))"
  by (force simp: VehicleStateTransformer_init_def init_analog_lookup init_digital_lookup)+

subsection \<open>The stabilisers stay in place\<close>

text \<open>\<open>transform\<close> replaces stabilisers and never removes one, whether it returns or
  raises: every stabiliser \<open>__post_init__\<close> created for a mapped name is there in every
  later state, and the pin map is never changed.\<close>

lemma digital_body_dom:
  "digital_body e ri now t loc = (r, t') \<Longrightarrow>
   dom (dig_stab t) \<subseteq> dom (dig_stab t') \<and> dom (flash t) \<subseteq> dom (flash t')"
  by (auto simp: digital_body_def Let_def split: option.splits)

lemma digital_loop_dom:
  "digital_loop chs ri now t loc = (r, t') \<Longrightarrow>
   dom (dig_stab t) \<subseteq> dom (dig_stab t') \<and> dom (flash t) \<subseteq> dom (flash t')"
proof (induction chs arbitrary: t loc)
  case Nil
  then show ?case by simp
next
  case (Cons e chs)
  obtain r1 t1 where b: "digital_body e ri now t loc = (r1, t1)"
    by (cases "digital_body e ri now t loc")
  show ?case
  proof (cases r1)
    case (Inl err)
    with Cons.prems b digital_body_dom[OF b] show ?thesis by simp
  next
    case (Inr loc1)
    with Cons.prems b have "digital_loop chs ri now t1 loc1 = (r, t')" by simp
    from Cons.IH[OF this] digital_body_dom[OF b] show ?thesis by blast
  qed
qed

lemma analog_body_dom:
  "analog_body P e ra t out = (r, t') \<Longrightarrow>
   dom (analog_clamp t) \<subseteq> dom (analog_clamp t') \<and> dom (analog_ema t) \<subseteq> dom (analog_ema t')"
  by (auto simp: analog_body_def Let_def split: option.splits sum.splits if_splits)

lemma analog_loop_dom:
  "analog_loop P chs ra t out = (r, t') \<Longrightarrow>
   dom (analog_clamp t) \<subseteq> dom (analog_clamp t') \<and> dom (analog_ema t) \<subseteq> dom (analog_ema t')"
proof (induction chs arbitrary: t out)
  case Nil
  then show ?case by simp
next
  case (Cons e chs)
  obtain r1 t1 where b: "analog_body P e ra t out = (r1, t1)"
    by (cases "analog_body P e ra t out")
  show ?case
  proof (cases r1)
    case (Inl err)
    with Cons.prems b analog_body_dom[OF b] show ?thesis by simp
  next
    case (Inr out1)
    with Cons.prems b have "analog_loop P chs ra t1 out1 = (r, t')" by simp
    from Cons.IH[OF this] analog_body_dom[OF b] show ?thesis by blast
  qed
qed

lemma transform_keeps_stabilisers:
  assumes "transform PI PF t now frame = (r, t')"
  shows "pinmap t' = pinmap t \<and>
         dom (dig_stab t) \<subseteq> dom (dig_stab t') \<and> dom (flash t) \<subseteq> dom (flash t') \<and>
         dom (analog_clamp t) \<subseteq> dom (analog_clamp t') \<and>
         dom (analog_ema t) \<subseteq> dom (analog_ema t')"
proof -
  let ?t0 = "t\<lparr>last_frame_ms := now\<rparr>"
  show ?thesis
  proof (cases "py_dict (py_or (py_get frame ''inputs'' (PDict [])) (PDict []))")
    case (Inl e)
    with assms show ?thesis by (auto simp: transform_def Let_def)
  next
    case ri: (Inr raw_inputs)
    show ?thesis
    proof (cases "py_dict (py_or (py_get frame ''analog'' (PDict [])) (PDict []))")
      case (Inl e)
      with assms ri show ?thesis by (auto simp: transform_def Let_def)
    next
      case ra: (Inr raw_analog)
      obtain r1 t1 where dl: "digital_loop (digital (pinmap ?t0)) raw_inputs now ?t0
          (Map.empty, Map.empty) = (r1, t1)"
        by (cases "digital_loop (digital (pinmap ?t0)) raw_inputs now ?t0 (Map.empty, Map.empty)")
      note d = digital_loop_dom[OF dl] digital_loop_frame[OF dl]
      show ?thesis
      proof (cases r1)
        case (Inl e)
        with assms ri ra dl have "t' = t1" by (simp add: transform_def Let_def)
        with d show ?thesis by simp
      next
        case (Inr loc)
        obtain r2 t2 where al: "analog_loop PF (analog (pinmap t1)) raw_analog t1 [] = (r2, t2)"
          by (cases "analog_loop PF (analog (pinmap t1)) raw_analog t1 []")
        note a = analog_loop_dom[OF al] analog_loop_frame[OF al]
        from assms ri ra dl Inr al have "t' = t2"
          by (auto simp: transform_def Let_def split: sum.splits prod.splits)
        with d a show ?thesis by simp
      qed
    qed
  qed
qed

subsection \<open>Analog entries of the transformer's snapshot\<close>




subsection \<open>The flashing fields\<close>

lemma transform_flashing:
  assumes "transform PI PF t now frame = (Inr snap, t')"
      and "py_dict (py_or (py_get frame ''inputs'' (PDict [])) (PDict [])) = Inr raw_inputs"
      and "distinct (map snd (digital (pinmap t)))"
      and "(d_pin, name) \<in> set (digital (pinmap t))"
      and "dig_stab t name = Some latch"
      and "flash t name = Some fd"
      and "(name, key) \<in> set [(''left_indicator'', ''left_flashing''),
                               (''right_indicator'', ''right_flashing'')]"
  shows "field2 snap ''indicators'' key
           = Some (PBool (fst (FlashDetector_update fd
               (fst (HoldLatch_update latch (truthy (py_get raw_inputs d_pin (PBool False))) now))
               now)))"
proof -
  from assms(1) obtain ri named_digital flashing t1 where
    ri: "py_dict (py_or (py_get frame ''inputs'' (PDict [])) (PDict [])) = Inr ri"
    and dl: "digital_loop (digital (pinmap t)) ri now (t\<lparr>last_frame_ms := now\<rparr>)
               (Map.empty, Map.empty) = (Inr (named_digital, flashing), t1)"
    and l: "field2 snap ''indicators'' ''left_flashing'' = Some (get_flag flashing ''left_indicator'')"
    and r: "field2 snap ''indicators'' ''right_flashing'' = Some (get_flag flashing ''right_indicator'')"
    by (rule transform_Inr) (simp add: field2_def)
  from ri assms(2) have [simp]: "ri = raw_inputs" by simp
  have "dig_stab (t\<lparr>last_frame_ms := now\<rparr>) name = Some latch"
    "flash (t\<lparr>last_frame_ms := now\<rparr>) name = Some fd"
    using assms(5,6) by simp_all
  with digital_loop_entry[OF dl assms(3,4), of latch]
  have "flashing name = Some (fst (FlashDetector_update fd
               (fst (HoldLatch_update latch (truthy (py_get raw_inputs d_pin (PBool False))) now))
               now))"
    by simp
  then have "get_flag flashing name = PBool (fst (FlashDetector_update fd
               (fst (HoldLatch_update latch (truthy (py_get raw_inputs d_pin (PBool False))) now))
               now))"
    by (simp add: get_flag_def)
  with assms(7) l r show ?thesis by auto
qed

lemma build_indicators:
  assumes "build S P b ts = Inr (snap, b')"
  shows "field2 snap ''indicators'' ''left''
           = Some (PBool (truthy (py_get (frame_inputs b) ''D2'' (PBool False))))"
    and "field2 snap ''indicators'' ''left_flashing''
           = Some (PBool (truthy (py_get (frame_inputs b) ''D2'' (PBool False))))"
    and "field2 snap ''indicators'' ''right''
           = Some (PBool (truthy (py_get (frame_inputs b) ''D3'' (PBool False))))"
    and "field2 snap ''indicators'' ''right_flashing''
           = Some (PBool (truthy (py_get (frame_inputs b) ''D3'' (PBool False))))"
  using assms
  by (auto elim!: build_Inr simp: field2_def frame_inputs_def build_d_def)

text \<open>
  Claim C2, as stated, fails on the snapshots that are published. The hub's \<open>build\<close>
  has no flash detector and no latch: after one frame with D2 true, the published
  \<open>left_flashing\<close> is true, the raw sample. A flash detector fed with the debounced
  value of that sample reports false, as the transformer's snapshot does.
\<close>

theorem published_flashing_counterexample:
  "(\<exists>h0. main_start 750 (\<lambda>s. None) 0 = Inr h0 \<and>
      field2 (latest_state (hub_run 750 (\<lambda>s. None) h0
         [Inbound (PDict [(''type'', PStr ''vehicle_inputs''),
                          (''inputs'', PDict [(''D2'', PBool True)])]) 1000,
          PumpTick 1010])) ''indicators'' ''left_flashing'' = Some (PBool True)) \<and>
   \<not> fst (FlashDetector_update (FlashDetector_init 1200 2)
            (fst (HoldLatch_update (HoldLatch_init 30 80) True 1000)) 1000) \<and>
   (\<exists>snap t'.
      transform (\<lambda>s. None) (\<lambda>s. None)
        (VehicleStateTransformer_init \<lparr>digital = [(''D2'', ''left_indicator'')], analog = []\<rparr>)
        1000 [(''type'', PStr ''vehicle_inputs''), (''inputs'', PDict [(''D2'', PBool True)])]
        = (Inr snap, t') \<and>
      field2 snap ''indicators'' ''left_flashing'' = Some (PBool False))"
proof -
  obtain h0 where h0: "main_start 750 (\<lambda>s. None) 0 = Inr h0"
    using main_start_Inr by blast
  then obtain L where e: "h0 = \<lparr>builder = VehicleStateBuilder_init, latest_state = L,
                         pump_running = True, sent = (\<lambda>n. []), closed = {}\<rparr>"
    by (rule main_start_shape)
  have 1: "\<exists>h0. main_start 750 (\<lambda>s. None) 0 = Inr h0 \<and>
      field2 (latest_state (hub_run 750 (\<lambda>s. None) h0
         [Inbound (PDict [(''type'', PStr ''vehicle_inputs''),
                          (''inputs'', PDict [(''D2'', PBool True)])]) 1000,
          PumpTick 1010])) ''indicators'' ''left_flashing'' = Some (PBool True)"
    by (rule exI[of _ h0], rule conjI[OF h0], unfold e) (simp add: hub_eval)
  have 2: "\<not> fst (FlashDetector_update (FlashDetector_init 1200 2)
            (fst (HoldLatch_update (HoldLatch_init 30 80) True 1000)) 1000)"
    by (simp add: transformer_eval)
  have 3: "\<exists>snap t'.
      transform (\<lambda>s. None) (\<lambda>s. None)
        (VehicleStateTransformer_init \<lparr>digital = [(''D2'', ''left_indicator'')], analog = []\<rparr>)
        1000 [(''type'', PStr ''vehicle_inputs''), (''inputs'', PDict [(''D2'', PBool True)])]
        = (Inr snap, t') \<and>
      field2 snap ''indicators'' ''left_flashing'' = Some (PBool False)"
    by (simp add: transformer_eval)
  from 1 2 3 show ?thesis by blast
qed

text \<open>
  Claim C2, amended: in the snapshot \<open>VehicleStateTransformer.transform\<close> returns (for a
  pin map with distinct signal names), \<open>left_flashing\<close> and \<open>right_flashing\<close> are the
  output of the flash detector of \<open>left_indicator\<close> and \<open>right_indicator\<close>, fed with the
  value the signal's hold-latch returns for the frame's raw sample of the mapped pin,
  never with the raw sample. The snapshots the hub publishes come from
  \<open>VehicleStateBuilder.build\<close>, where \<open>left_flashing\<close> and \<open>right_flashing\<close> repeat
  \<open>left\<close> and \<open>right\<close>: the truth value of the last frame's raw sample of D2 and D3.
\<close>

theorem flashing_fields:
  "(distinct (map snd (digital (pinmap t))) \<and>
    (d_pin, name) \<in> set (digital (pinmap t)) \<and>
    (name, key) \<in> set [(''left_indicator'', ''left_flashing''),
                        (''right_indicator'', ''right_flashing'')] \<and>
    dig_stab t name = Some latch \<and> flash t name = Some fd \<and>
    py_dict (py_or (py_get frame ''inputs'' (PDict [])) (PDict [])) = Inr raw_inputs \<and>
    transform PI PF t now frame = (Inr snap, t')
    \<longrightarrow>
    field2 snap ''indicators'' key
      = Some (PBool (fst (FlashDetector_update fd
          (fst (HoldLatch_update latch (truthy (py_get raw_inputs d_pin (PBool False))) now))
          now)))) \<and>
   (build S P b ts = Inr (hsnap, b') \<and>
    (pin, k, kf) \<in> set [(''D2'', ''left'', ''left_flashing''),
                       (''D3'', ''right'', ''right_flashing'')]
    \<longrightarrow>
    field2 hsnap ''indicators'' kf
      = Some (PBool (truthy (py_get (frame_inputs b) pin (PBool False)))) \<and>
    field2 hsnap ''indicators'' kf = field2 hsnap ''indicators'' k)"
  using transform_flashing[of PI PF t now frame snap t' raw_inputs d_pin name latch fd key]
    build_indicators[of S P b ts hsnap b']
  by auto

theorem flashing_fields_witness:
  "(\<exists>snap t'.
      transform (\<lambda>s. None) (\<lambda>s. None)
        (VehicleStateTransformer_init \<lparr>digital = [(''D2'', ''left_indicator'')], analog = []\<rparr>)
        1000 [(''type'', PStr ''vehicle_inputs''), (''inputs'', PDict [(''D2'', PBool True)])]
        = (Inr snap, t') \<and>
      field2 snap ''indicators'' ''left_flashing'' = Some (PBool False)) \<and>
   (\<exists>hsnap b'.
      build 750 (\<lambda>s. None)
        (update_from_uno VehicleStateBuilder_init 1000
           [(''type'', PStr ''vehicle_inputs''), (''inputs'', PDict [(''D2'', PBool True)])])
        1010 = Inr (hsnap, b') \<and>
      field2 hsnap ''indicators'' ''left_flashing'' = Some (PBool True) \<and>
      field2 hsnap ''indicators'' ''left'' = Some (PBool True))"
proof -
  let ?PI = "\<lambda>s::string. None::int option"
  let ?PF = "\<lambda>s::string. None::real option"
  let ?pm = "\<lparr>digital = [(''D2'', ''left_indicator'')], analog = []\<rparr>"
  let ?f = "[(''type'', PStr ''vehicle_inputs''), (''inputs'', PDict [(''D2'', PBool True)])]"
  let ?t = "VehicleStateTransformer_init ?pm"
  let ?b = "update_from_uno VehicleStateBuilder_init 1000 ?f"
  obtain snap t' where r: "transform ?PI ?PF ?t 1000 ?f = (Inr snap, t')"
    by (simp add: transformer_eval)
  obtain hsnap b' where h: "build 750 ?PI ?b 1010 = Inr (hsnap, b')"
    by (simp add: hub_eval)
  have pm: "pinmap ?t = ?pm" by (simp add: VehicleStateTransformer_init_def)
  have st: "dig_stab ?t ''left_indicator'' = Some (HoldLatch_init 30 80)"
    "flash ?t ''left_indicator'' = Some (FlashDetector_init 1200 2)"
    by (simp_all add: VehicleStateTransformer_init_def is_indicator_def)
  have d: "py_dict (py_or (py_get ?f ''inputs'' (PDict [])) (PDict [])) = Inr [(''D2'', PBool True)]"
    by (simp add: py_get_def py_or_def)
  have fi: "frame_inputs ?b = [(''D2'', PBool True)]"
    by (simp add: frame_inputs_def update_from_uno_def py_get_def py_or_def)
  note T = flashing_fields[where t = ?t and d_pin = "''D2''" and name = "''left_indicator''"
      and key = "''left_flashing''" and latch = "HoldLatch_init 30 80"
      and fd = "FlashDetector_init 1200 2" and frame = ?f and raw_inputs = "[(''D2'', PBool True)]"
      and PI = ?PI and PF = ?PF and now = 1000 and snap = snap and t' = t'
      and S = 750 and P = ?PI and b = ?b and ts = 1010 and hsnap = hsnap and b' = b'
      and pin = "''D2''" and k = "''left''" and kf = "''left_flashing''"]
  from T pm st d r have
    "field2 snap ''indicators'' ''left_flashing''
      = Some (PBool (fst (FlashDetector_update (FlashDetector_init 1200 2)
          (fst (HoldLatch_update (HoldLatch_init 30 80)
                 (truthy (py_get [(''D2'', PBool True)] ''D2'' (PBool False))) 1000))
          1000)))"
    by simp
  then have a: "field2 snap ''indicators'' ''left_flashing'' = Some (PBool False)"
    by (simp add: transformer_eval)
  from T h fi have
    "field2 hsnap ''indicators'' ''left_flashing''
      = Some (PBool (truthy (py_get [(''D2'', PBool True)] ''D2'' (PBool False))))"
    "field2 hsnap ''indicators'' ''left_flashing'' = field2 hsnap ''indicators'' ''left''"
    by auto
  then have c: "field2 hsnap ''indicators'' ''left_flashing'' = Some (PBool True)"
    "field2 hsnap ''indicators'' ''left'' = Some (PBool True)"
    by (simp_all add: py_get_def)
  from r h a c show ?thesis by blast
qed

subsection \<open>A missing or unparsable analog sample\<close>





end
